theory Spec2Isabelle
  imports Main "HOL-Library.Sublist"
begin

section \<open>Rickipedia: the fetch, batch, cache and pagination logic of \<open>src/app.py\<close>\<close>

text \<open>
  The development follows \<open>src/app.py\<close>. Python strings are modelled as \<open>string\<close>
  (code points below 256, where the only characters matched by the regular expression
  class \<open>\d\<close> are the ASCII digits), Python integers as \<open>int\<close>, decoded JSON as the
  datatype \<open>json\<close>, exceptions as values of \<open>py_error\<close>, the Streamlit session state as a
  record that is passed in and returned, and the upstream HTTP service as a function from
  requests to outcomes. The HTML that a view writes to the page is not part of the model;
  what a view does to the session state, which requests it builds, and the exceptions it
  raises while it draws the results are. Streamlit's own bookkeeping of widgets is outside
  the model.
\<close>

subsection \<open>Values\<close>

text \<open>Decoded JSON, as \<open>r.json()\<close> returns it. Numbers are the integers the API sends.\<close>

datatype json =
    JNull
  | JBool bool
  | JNum int
  | JStr string
  | JArr "json list"
  | JObj "(string \<times> json) list"

text \<open>The exceptions that the modelled code paths can raise.\<close>

datatype py_error =
    RequestException string
  | JSONDecodeError string
  | TypeError
  | AttributeError
  | KeyError
  | IndexError
  | StreamlitAPIException

text \<open>A Python dict built by the program: keys with their values, in insertion order.\<close>

type_synonym params = "(string \<times> json) list"

subsection \<open>String helpers\<close>

text \<open>\<open>sub in s\<close> on Python strings: \<open>sub\<close> occurs in \<open>s\<close> as a contiguous block.\<close>

fun contains :: "string \<Rightarrow> string \<Rightarrow> bool" where
  "contains [] sub = (sub = [])"
| "contains (c # s) sub = (prefix sub (c # s) \<or> contains s sub)"

text \<open>\<open>sep.join(xs)\<close>.\<close>

fun join :: "string \<Rightarrow> string list \<Rightarrow> string" where
  "join sep [] = []"
| "join sep [x] = x"
| "join sep (x # y # ys) = x @ sep @ join sep (y # ys)"

text \<open>\<open>xs[:n]\<close>: a negative bound counts from the end of the list.\<close>

definition slice_to :: "'a list \<Rightarrow> int \<Rightarrow> 'a list" where
  "slice_to xs n = (if n < 0 then take (length xs - nat (- n)) xs else take (nat n) xs)"

text \<open>The decimal text of an integer, as an f-string prints it.\<close>

fun str_nat :: "nat \<Rightarrow> string" where
  "str_nat n = (if n < 10 then [''0123456789'' ! n]
                else str_nat (n div 10) @ [''0123456789'' ! (n mod 10)])"

declare str_nat.simps [simp del]

definition str_int :: "int \<Rightarrow> string" where
  "str_int i = (if i < 0 then CHR ''-'' # str_nat (nat (- i)) else str_nat (nat i))"

subsection \<open>Configuration\<close>

definition BASE :: string where
  "BASE = ''https://rickandmortyapi.com/api/''"

subsection \<open>Extracting the identifier of a reference URL\<close>

text \<open>
  \<open>extract_id_from_url\<close> runs \<open>re.search(r'/(\d+)/?$', u)\<close> and returns group 1, or the
  empty string when nothing matches. A match at a position is a slash, a maximal
  non-empty run of digits (giving digits back never helps: the next character would be a
  digit), an optional slash, and then the end of the string or the newline that ends the
  string. \<open>re.search\<close> takes the leftmost position that matches.
\<close>

definition is_digit :: "char \<Rightarrow> bool" where
  "is_digit c = (c \<in> set ''0123456789'')"

definition match_id_here :: "string \<Rightarrow> string option" where
  "match_id_here u =
     (case u of
        [] \<Rightarrow> None
      | c # r \<Rightarrow>
          if c \<noteq> CHR ''/'' then None
          else let ds = takeWhile is_digit r; t = dropWhile is_digit r in
            if ds \<noteq> [] \<and> (t = [] \<or> t = ''/'' \<or> t = [CHR 0x0A] \<or> t = [CHR ''/'', CHR 0x0A])
            then Some ds else None)"

fun re_search_id :: "string \<Rightarrow> string option" where
  "re_search_id [] = None"
| "re_search_id (c # r) =
     (case match_id_here (c # r) of
        Some ds \<Rightarrow> Some ds
      | None \<Rightarrow> re_search_id r)"

text \<open>On a string \<open>re.search\<close> does not raise, so the handler of the source is never entered.\<close>

definition extract_id_from_url :: "string \<Rightarrow> string" where
  "extract_id_from_url u = (case re_search_id u of Some ds \<Rightarrow> ds | None \<Rightarrow> [])"

subsection \<open>The upstream service\<close>

text \<open>
  One call of \<open>requests.get(url, params=params, timeout=20)\<close> either raises (timeout,
  connection failure) with some message, or returns a response with a status code, a
  body text, and the result of decoding the body as JSON (\<open>r.json()\<close> raises with a
  message when the body is not JSON).
\<close>

record response =
  status_code :: int
  r_text :: string
  r_json :: "string + json"

datatype outcome = Raised string | Responded response

type_synonym request = "string \<times> params option"

type_synonym upstream = "string \<Rightarrow> params option \<Rightarrow> outcome"

subsection \<open>\<open>api_get\<close> and \<open>fetch_multiple\<close>, the function bodies\<close>

text \<open>
  Each body returns its result together with the list of requests it sent upstream.
  \<open>Inl\<close> is an exception that leaves the function.
\<close>

definition api_get :: "upstream \<Rightarrow> string \<Rightarrow> params option \<Rightarrow> (py_error + json) \<times> request list" where
  "api_get up endpoint params =
     (let url = BASE @ endpoint in
      (case up url params of
         Raised msg \<Rightarrow> Inl (RequestException msg)
       | Responded r \<Rightarrow>
           if status_code r = 200
           then (case r_json r of Inl msg \<Rightarrow> Inl (JSONDecodeError msg) | Inr j \<Rightarrow> Inr j)
           else Inr (JObj [(''error'', JStr (''API Error '' @ str_int (status_code r) @ '': '' @ r_text r))]),
       [(url, params)]))"

text \<open>The local values of \<open>fetch_multiple\<close>, in the order the body computes them.\<close>

definition ids_of :: "string list \<Rightarrow> string list" where
  "ids_of urls = map extract_id_from_url (filter (\<lambda>u. u \<noteq> []) urls)"

definition ids_to_fetch :: "string list \<Rightarrow> int \<Rightarrow> string list" where
  "ids_to_fetch urls limit = slice_to (ids_of urls) limit"

definition endpoint_of :: "string list \<Rightarrow> string" where
  "endpoint_of urls = (if contains (hd urls) ''character'' then ''character'' else ''episode'')"

definition bulk_url :: "string list \<Rightarrow> int \<Rightarrow> string" where
  "bulk_url urls limit = BASE @ endpoint_of urls @ ''/'' @ join '','' (ids_to_fetch urls limit)"

text \<open>
  The result of \<open>fetch_multiple\<close> is the returned list, the notices shown with
  \<open>st.error\<close>, and the requests sent. \<open>hd urls\<close> is only reached when \<open>ids_of urls\<close> is
  not empty, and then \<open>urls\<close> is not empty (lemma \<open>ids_of_nonempty\<close>).
\<close>

record batch_result =
  entities :: "json list"
  notices :: "string list"
  sent :: "request list"

definition fetch_multiple :: "upstream \<Rightarrow> string list \<Rightarrow> int \<Rightarrow> batch_result" where
  "fetch_multiple up urls limit =
     (if ids_of urls = [] then \<lparr>entities = [], notices = [], sent = []\<rparr>
      else
        (case up (bulk_url urls limit) None of
           Raised msg \<Rightarrow>
             \<lparr>entities = [], notices = [''Error fetching bulk data: '' @ msg],
              sent = [(bulk_url urls limit, None)]\<rparr>
         | Responded r \<Rightarrow>
             if status_code r = 200
             then (case r_json r of
                     Inl msg \<Rightarrow>
                       \<lparr>entities = [], notices = [''Error fetching bulk data: '' @ msg],
                        sent = [(bulk_url urls limit, None)]\<rparr>
                   | Inr result \<Rightarrow>
                       \<lparr>entities = (case result of JArr xs \<Rightarrow> xs | _ \<Rightarrow> [result]),
                        notices = [], sent = [(bulk_url urls limit, None)]\<rparr>)
             else \<lparr>entities = [], notices = [], sent = [(bulk_url urls limit, None)]\<rparr>))"

subsection \<open>The memoising decorator\<close>

text \<open>
  Both functions are wrapped with \<open>st.cache_data\<close>: \<open>api_get\<close> with \<open>ttl=300\<close> and
  \<open>max_entries=50\<close>, \<open>fetch_multiple\<close> with \<open>ttl=300\<close>. The decorator memoises the value a
  call returns under the call's arguments. A stored value is served, without running the
  body, while it is younger than the time to live; a new entry in a full cache removes the
  oldest entry; a call whose body raises stores nothing, and the exception reaches the
  caller. The store is a list of entries, oldest first, and the clock counts seconds.
  The properties of the batch further down are properties of the body of
  \<open>fetch_multiple\<close>, which is what runs whenever a call is not served from the store.
\<close>

type_synonym ('k, 'v) store = "('k \<times> 'v \<times> nat) list"

definition fresh :: "nat \<Rightarrow> nat \<Rightarrow> 'k \<times> 'v \<times> nat \<Rightarrow> bool" where
  "fresh ttl now e = (now < snd (snd e) + ttl)"

definition cache_lookup :: "nat \<Rightarrow> nat \<Rightarrow> ('k, 'v) store \<Rightarrow> 'k \<Rightarrow> 'v option" where
  "cache_lookup ttl now st k =
     (case map_of (filter (fresh ttl now) st) k of None \<Rightarrow> None | Some (v, t) \<Rightarrow> Some v)"

definition cache_insert :: "nat option \<Rightarrow> nat \<Rightarrow> nat \<Rightarrow> ('k, 'v) store \<Rightarrow> 'k \<Rightarrow> 'v \<Rightarrow> ('k, 'v) store" where
  "cache_insert max_entries ttl now st k v =
     (let live = filter (\<lambda>e. fresh ttl now e \<and> fst e \<noteq> k) st;
          kept = (case max_entries of
                    None \<Rightarrow> live
                  | Some m \<Rightarrow> drop (length live + 1 - m) live)
      in kept @ [(k, v, now)])"

definition cache_data ::
  "nat option \<Rightarrow> nat \<Rightarrow> ('k \<Rightarrow> (py_error + 'v) \<times> request list) \<Rightarrow>
   ('k, 'v) store \<Rightarrow> nat \<Rightarrow> 'k \<Rightarrow> ((py_error + 'v) \<times> request list) \<times> ('k, 'v) store" where
  "cache_data max_entries ttl body st now k =
     (case cache_lookup ttl now st k of
        Some v \<Rightarrow> ((Inr v, []), st)
      | None \<Rightarrow>
          (case body k of
             (Inl e, reqs) \<Rightarrow> ((Inl e, reqs), st)
           | (Inr v, reqs) \<Rightarrow> ((Inr v, reqs), cache_insert max_entries ttl now st k v)))"

text \<open>The decorated \<open>api_get\<close>: the request signature is the endpoint with the parameters.\<close>

definition api_get_cached ::
  "upstream \<Rightarrow> (string \<times> params option, json) store \<Rightarrow> nat \<Rightarrow> string \<Rightarrow> params option \<Rightarrow>
   ((py_error + json) \<times> request list) \<times> (string \<times> params option, json) store" where
  "api_get_cached up st now endpoint params =
     cache_data (Some 50) 300 (\<lambda>(e, p). api_get up e p) st now (endpoint, params)"

subsection \<open>Session state and callbacks\<close>

text \<open>
  The keys of \<open>st.session_state\<close> that the program sets up at start, and the four keyed
  filter widgets of the character view, whose values live in the session state.
\<close>

record session_state =
  page_view :: string
  selected_char_id :: "json option"
  char_page :: int
  ep_page :: int
  loc_page :: int
  theme :: string
  q_name :: string
  q_status :: string
  q_species :: string
  q_gender :: string

definition reset_char_page :: "session_state \<Rightarrow> session_state" where
  "reset_char_page s = s\<lparr>char_page := 1\<rparr>"

text \<open>
  The filter widgets of the character view. Each is created with
  \<open>on_change=reset_char_page\<close>. When the user changes the value of a keyed widget,
  Streamlit stores the new value under the key, runs the widget's \<open>on_change\<close> callback,
  and then runs the script again; an edit that leaves the value as it is changes nothing.
\<close>

datatype char_filter = Q_name | Q_status | Q_species | Q_gender

fun filter_value :: "char_filter \<Rightarrow> session_state \<Rightarrow> string" where
  "filter_value Q_name s = q_name s"
| "filter_value Q_status s = q_status s"
| "filter_value Q_species s = q_species s"
| "filter_value Q_gender s = q_gender s"

fun set_filter :: "char_filter \<Rightarrow> string \<Rightarrow> session_state \<Rightarrow> session_state" where
  "set_filter Q_name v s = s\<lparr>q_name := v\<rparr>"
| "set_filter Q_status v s = s\<lparr>q_status := v\<rparr>"
| "set_filter Q_species v s = s\<lparr>q_species := v\<rparr>"
| "set_filter Q_gender v s = s\<lparr>q_gender := v\<rparr>"

fun on_change :: "char_filter \<Rightarrow> (session_state \<Rightarrow> session_state) option" where
  "on_change Q_name = Some reset_char_page"
| "on_change Q_status = Some reset_char_page"
| "on_change Q_species = Some reset_char_page"
| "on_change Q_gender = Some reset_char_page"

definition filter_changed :: "char_filter \<Rightarrow> string \<Rightarrow> session_state \<Rightarrow> session_state" where
  "filter_changed w v s =
     (if v = filter_value w s then s
      else (case on_change w of
              None \<Rightarrow> set_filter w v s
            | Some callback \<Rightarrow> callback (set_filter w v s)))"

text \<open>
  The episode and location views read their filters from the values that
  \<open>st.text_input\<close> returns in the run, and their page from \<open>st.number_input\<close>; no
  callback is registered on them. \<open>page_input\<close> is the number the user has entered in the
  page field, \<open>None\<close> while the field still shows the value it was created with.
\<close>

record ep_inputs =
  ep_name :: string
  ep_code :: string
  ep_page_input :: "int option"

record loc_inputs =
  loc_name :: string
  loc_type :: string
  loc_page_input :: "int option"

definition number_input :: "int \<Rightarrow> int \<Rightarrow> int option \<Rightarrow> py_error + int" where
  "number_input min_value val entered =
     (if val < min_value then Inl StreamlitAPIException
      else Inr (case entered of None \<Rightarrow> val | Some v \<Rightarrow> v))"

subsection \<open>Request parameters\<close>

definition char_params :: "session_state \<Rightarrow> params" where
  "char_params s =
     [(''page'', JNum (char_page s))]
     @ (if q_name s \<noteq> [] then [(''name'', JStr (q_name s))] else [])
     @ (if q_status s \<noteq> [] then [(''status'', JStr (q_status s))] else [])
     @ (if q_species s \<noteq> [] then [(''species'', JStr (q_species s))] else [])
     @ (if q_gender s \<noteq> [] then [(''gender'', JStr (q_gender s))] else [])"

definition ep_params :: "ep_inputs \<Rightarrow> session_state \<Rightarrow> params" where
  "ep_params w s =
     [(''page'', JNum (ep_page s))]
     @ (if ep_name w \<noteq> [] then [(''name'', JStr (ep_name w))] else [])
     @ (if ep_code w \<noteq> [] then [(''episode'', JStr (ep_code w))] else [])"

definition loc_params :: "loc_inputs \<Rightarrow> session_state \<Rightarrow> params" where
  "loc_params w s =
     [(''page'', JNum (loc_page s))]
     @ (if loc_name w \<noteq> [] then [(''name'', JStr (loc_name w))] else [])
     @ (if loc_type w \<noteq> [] then [(''type'', JStr (loc_type w))] else [])"

subsection \<open>Reading decoded JSON\<close>

text \<open>\<open>d.get(k, default)\<close>: an attribute error on anything but a dict.\<close>

definition dict_get :: "json \<Rightarrow> string \<Rightarrow> json \<Rightarrow> py_error + json" where
  "dict_get d k dflt =
     (case d of
        JObj kvs \<Rightarrow> Inr (case map_of kvs k of None \<Rightarrow> dflt | Some v \<Rightarrow> v)
      | _ \<Rightarrow> Inl AttributeError)"

text \<open>\<open>"error" in data\<close>: key of a dict, element of a list, part of a string.\<close>

definition has_error :: "json \<Rightarrow> py_error + bool" where
  "has_error data =
     (case data of
        JObj kvs \<Rightarrow> Inr (map_of kvs ''error'' \<noteq> None)
      | JArr xs \<Rightarrow> Inr (JStr ''error'' \<in> set xs)
      | JStr t \<Rightarrow> Inr (contains t ''error'')
      | _ \<Rightarrow> Inl TypeError)"

text \<open>Truth value of an object in a condition.\<close>

fun truthy :: "json \<Rightarrow> bool" where
  "truthy JNull = False"
| "truthy (JBool b) = b"
| "truthy (JNum n) = (n \<noteq> 0)"
| "truthy (JStr t) = (t \<noteq> [])"
| "truthy (JArr xs) = (xs \<noteq> [])"
| "truthy (JObj kvs) = (kvs \<noteq> [])"

text \<open>The integer an object is compared as; strings, lists, dicts and \<open>None\<close> do not compare.\<close>

fun num_of :: "json \<Rightarrow> int option" where
  "num_of (JNum n) = Some n"
| "num_of (JBool b) = Some (if b then 1 else 0)"
| "num_of _ = None"

text \<open>
  \<open>for x in obj\<close>: the elements of a list, the keys of a dict, the characters of a
  string; nothing else can be iterated.
\<close>

fun py_iter :: "json \<Rightarrow> py_error + json list" where
  "py_iter (JArr xs) = Inr xs"
| "py_iter (JObj kvs) = Inr (map JStr (remdups (map fst kvs)))"
| "py_iter (JStr t) = Inr (map (\<lambda>c. JStr [c]) t)"
| "py_iter JNull = Inl TypeError"
| "py_iter (JBool b) = Inl TypeError"
| "py_iter (JNum n) = Inl TypeError"

text \<open>\<open>obj[k]\<close> with a string \<open>k\<close>: a key error on a dict without the key, a type error on anything else.\<close>

definition py_item :: "json \<Rightarrow> string \<Rightarrow> py_error + json" where
  "py_item obj k =
     (case obj of
        JObj kvs \<Rightarrow> (case map_of kvs k of None \<Rightarrow> Inl KeyError | Some v \<Rightarrow> Inr v)
      | _ \<Rightarrow> Inl TypeError)"

text \<open>\<open>obj[0]\<close>.\<close>

definition py_first :: "json \<Rightarrow> py_error + json" where
  "py_first obj =
     (case obj of
        JArr xs \<Rightarrow> (case xs of [] \<Rightarrow> Inl IndexError | x # _ \<Rightarrow> Inr x)
      | JStr t \<Rightarrow> (case t of [] \<Rightarrow> Inl IndexError | c # _ \<Rightarrow> Inr (JStr [c]))
      | JObj kvs \<Rightarrow> Inl KeyError
      | _ \<Rightarrow> Inl TypeError)"

text \<open>\<open>k in obj\<close> with a string \<open>k\<close>.\<close>

definition py_in :: "string \<Rightarrow> json \<Rightarrow> py_error + bool" where
  "py_in k obj =
     (case obj of
        JObj kvs \<Rightarrow> Inr (map_of kvs k \<noteq> None)
      | JArr xs \<Rightarrow> Inr (JStr k \<in> set xs)
      | JStr t \<Rightarrow> Inr (contains t k)
      | _ \<Rightarrow> Inl TypeError)"

text \<open>
  \<open>str.lower()\<close> on code points below 256: the letters A to Z and the accented capitals
  0xC0 to 0xDE (but not the multiplication sign 0xD7) move up by 32.
\<close>

definition lower_char :: "char \<Rightarrow> char" where
  "lower_char c =
     (let n = (of_char c :: nat) in
      if (65 \<le> n \<and> n \<le> 90) \<or> (192 \<le> n \<and> n \<le> 222 \<and> n \<noteq> 215) then char_of (n + 32) else c)"

text \<open>\<open>(s or "").lower()\<close>: an attribute error when \<open>s\<close> is true and not a string.\<close>

definition or_empty_lower :: "json \<Rightarrow> py_error + string" where
  "or_empty_lower s =
     (case (if truthy s then s else JStr []) of
        JStr t \<Rightarrow> Inr (map lower_char t)
      | _ \<Rightarrow> Inl AttributeError)"

text \<open>Running one step after another: the first exception ends the run.\<close>

definition and_then :: "py_error + 'a \<Rightarrow> ('a \<Rightarrow> py_error + 'b) \<Rightarrow> py_error + 'b" where
  "and_then r f = (case r of Inl e \<Rightarrow> Inl e | Inr v \<Rightarrow> f v)"

fun for_each :: "('a \<Rightarrow> py_error + unit) \<Rightarrow> 'a list \<Rightarrow> py_error + unit" where
  "for_each f [] = Inr ()"
| "for_each f (x # xs) = (case f x of Inl e \<Rightarrow> Inl e | Inr u \<Rightarrow> for_each f xs)"

subsection \<open>The pager\<close>

datatype page_key = Char_page | Ep_page | Loc_page

fun get_page :: "page_key \<Rightarrow> session_state \<Rightarrow> int" where
  "get_page Char_page s = char_page s"
| "get_page Ep_page s = ep_page s"
| "get_page Loc_page s = loc_page s"

fun set_page :: "page_key \<Rightarrow> int \<Rightarrow> session_state \<Rightarrow> session_state" where
  "set_page Char_page n s = s\<lparr>char_page := n\<rparr>"
| "set_page Ep_page n s = s\<lparr>ep_page := n\<rparr>"
| "set_page Loc_page n s = s\<lparr>loc_page := n\<rparr>"

text \<open>
  The run of the script was started by at most one button press. \<open>st.button\<close> returns
  true in that run for the button that was pressed; a disabled button cannot be pressed.
\<close>

datatype click = NoClick | ClickPrev | ClickNext

definition st_button :: "bool \<Rightarrow> bool \<Rightarrow> bool" where
  "st_button disabled pressed = (pressed \<and> \<not> disabled)"

text \<open>
  \<open>pager_controls\<close> returns the session state and whether \<open>st.rerun()\<close> was called. The
  comparison with \<open>total_pages\<close> is evaluated when the Next button is created, after the
  Prev button has been handled.
\<close>

definition pager_controls :: "json \<Rightarrow> page_key \<Rightarrow> click \<Rightarrow> session_state \<Rightarrow> py_error + session_state \<times> bool" where
  "pager_controls info key clk s =
     (let current_page = get_page key s in
      case dict_get info ''pages'' (JNum current_page) of
        Inl e \<Rightarrow> Inl e
      | Inr total_pages \<Rightarrow>
          if st_button (current_page \<le> 1) (clk = ClickPrev)
          then Inr (set_page key (max 1 (current_page - 1)) s, True)
          else (case num_of total_pages of
                  None \<Rightarrow> Inl TypeError
                | Some t \<Rightarrow>
                    if st_button (current_page \<ge> t) (clk = ClickNext)
                    then Inr (set_page key (min t (current_page + 1)) s, True)
                    else Inr (s, False)))"

text \<open>A sequence of button presses on one pager, the page information staying the same.\<close>

fun pager_presses :: "json \<Rightarrow> page_key \<Rightarrow> click list \<Rightarrow> session_state \<Rightarrow> py_error + session_state" where
  "pager_presses info key [] s = Inr s"
| "pager_presses info key (c # cs) s =
     (case pager_controls info key c s of
        Inl e \<Rightarrow> Inl e
      | Inr (s', rerun) \<Rightarrow> pager_presses info key cs s')"

subsection \<open>Drawing a character card\<close>

definition status_class :: "json \<Rightarrow> py_error + string" where
  "status_class s =
     and_then (or_empty_lower s) (\<lambda>l.
       Inr (if l = ''alive'' then ''alive'' else if l = ''dead'' then ''dead'' else ''unknown''))"

definition get_status_color :: "json \<Rightarrow> py_error + string" where
  "get_status_color s =
     and_then (or_empty_lower s) (\<lambda>l.
       Inr (if l = ''alive'' then ''var(--ok)'' else if l = ''dead'' then ''var(--bad)''
            else ''var(--warn)''))"

text \<open>
  \<open>render_character_card\<close> reads the card's fields and writes HTML and a button. The
  steps that can raise are kept, in the order of the source: the first read with \<open>get\<close>
  (after it the reads of image, name and species cannot raise), \<open>status_class\<close>, the read
  of the origin's name through \<open>(char.get("origin") or {})\<close>, and \<open>get_status_color\<close>.
  The default texts only feed the HTML.
\<close>

definition render_character_card :: "json \<Rightarrow> py_error + unit" where
  "render_character_card char =
     and_then (dict_get char ''id'' JNull) (\<lambda>char_id.
     and_then (dict_get char ''status'' (JStr ''unknown'')) (\<lambda>status.
     and_then (status_class status) (\<lambda>badge.
     and_then (dict_get char ''origin'' JNull) (\<lambda>origin.
     and_then (dict_get (if truthy origin then origin else JObj []) ''name'' JNull) (\<lambda>origin_name.
     and_then (get_status_color status) (\<lambda>status_color. Inr ()))))))"

subsection \<open>The list views\<close>

text \<open>
  A view is run with the function that answers \<open>api_get\<close> in this run and, where it
  resolves references, the function that answers \<open>fetch_multiple\<close> (the decorated
  functions, seen from the caller: a value or an exception), the button press that started
  the run, and the session state. It returns the session state and whether it asked for
  a rerun, or the exception that ended the run.
\<close>

type_synonym api = "string \<Rightarrow> params option \<Rightarrow> py_error + json"

type_synonym batch = "json \<Rightarrow> int \<Rightarrow> py_error + json list"

text \<open>The loop over the results of the character view: one card for each.\<close>

definition character_cards :: "json \<Rightarrow> py_error + unit" where
  "character_cards res = and_then (py_iter res) (for_each render_character_card)"

definition render_character_list :: "api \<Rightarrow> click \<Rightarrow> session_state \<Rightarrow> py_error + session_state \<times> bool" where
  "render_character_list get clk s =
     (case get ''character'' (Some (char_params s)) of
        Inl e \<Rightarrow> Inl e
      | Inr data \<Rightarrow>
          (case has_error data of
             Inl e \<Rightarrow> Inl e
           | Inr True \<Rightarrow>
               (case data of
                  JObj kvs \<Rightarrow>
                    if char_page s \<noteq> 1 then Inr (s\<lparr>char_page := 1\<rparr>, True) else Inr (s, False)
                | _ \<Rightarrow> Inl TypeError)
           | Inr False \<Rightarrow>
               (case dict_get data ''info'' (JObj []) of
                  Inl e \<Rightarrow> Inl e
                | Inr info \<Rightarrow>
                    (case dict_get data ''results'' (JArr []) of
                       Inl e \<Rightarrow> Inl e
                     | Inr res \<Rightarrow>
                         if truthy res
                         then (case character_cards res of
                                 Inl e \<Rightarrow> Inl e
                               | Inr u \<Rightarrow> pager_controls info Char_page clk s)
                         else Inr (s, False)))))"

text \<open>
  The first part of the episode and location views: the page field is read into the
  session state and the request parameters are built.
\<close>

definition ep_request :: "ep_inputs \<Rightarrow> session_state \<Rightarrow> py_error + session_state \<times> params" where
  "ep_request w s =
     (case number_input 1 (ep_page s) (ep_page_input w) of
        Inl e \<Rightarrow> Inl e
      | Inr p \<Rightarrow> Inr (s\<lparr>ep_page := p\<rparr>, ep_params w (s\<lparr>ep_page := p\<rparr>)))"

definition loc_request :: "loc_inputs \<Rightarrow> session_state \<Rightarrow> py_error + session_state \<times> params" where
  "loc_request w s =
     (case number_input 1 (loc_page s) (loc_page_input w) of
        Inl e \<Rightarrow> Inl e
      | Inr p \<Rightarrow> Inr (s\<lparr>loc_page := p\<rparr>, loc_params w (s\<lparr>loc_page := p\<rparr>)))"

text \<open>
  The chips of the resolved references: \<open>c['name']\<close> for every resolved entity, when the
  resolved list is not empty.
\<close>

definition name_chips :: "json list \<Rightarrow> py_error + unit" where
  "name_chips resolved = for_each (\<lambda>c. and_then (py_item c ''name'') (\<lambda>n. Inr ())) resolved"

text \<open>One episode of the results: the heading, the caption, the characters.\<close>

definition episode_row :: "batch \<Rightarrow> json \<Rightarrow> py_error + unit" where
  "episode_row fetch ep =
     and_then (py_item ep ''name'') (\<lambda>name.
     and_then (py_item ep ''episode'') (\<lambda>code.
     and_then (py_item ep ''air_date'') (\<lambda>air_date.
     and_then (py_item ep ''id'') (\<lambda>ep_id.
     and_then (dict_get ep ''characters'' (JArr [])) (\<lambda>urls.
     and_then (fetch urls 10) (\<lambda>chars.
       if chars \<noteq> [] then name_chips chars else Inr ()))))))"

definition episode_rows :: "batch \<Rightarrow> json \<Rightarrow> py_error + unit" where
  "episode_rows fetch res = and_then (py_iter res) (for_each (episode_row fetch))"

definition render_episodes :: "api \<Rightarrow> batch \<Rightarrow> ep_inputs \<Rightarrow> click \<Rightarrow> session_state \<Rightarrow> py_error + session_state \<times> bool" where
  "render_episodes get fetch w clk s =
     (case ep_request w s of
        Inl e \<Rightarrow> Inl e
      | Inr (s1, ps) \<Rightarrow>
          (case get ''episode'' (Some ps) of
             Inl e \<Rightarrow> Inl e
           | Inr data \<Rightarrow>
               (case has_error data of
                  Inl e \<Rightarrow> Inl e
                | Inr True \<Rightarrow> (case data of JObj kvs \<Rightarrow> Inr (s1, False) | _ \<Rightarrow> Inl TypeError)
                | Inr False \<Rightarrow>
                    (case dict_get data ''info'' (JObj []) of
                       Inl e \<Rightarrow> Inl e
                     | Inr info \<Rightarrow>
                         (case dict_get data ''results'' (JArr []) of
                            Inl e \<Rightarrow> Inl e
                          | Inr res \<Rightarrow>
                              if truthy res
                              then (case episode_rows fetch res of
                                      Inl e \<Rightarrow> Inl e
                                    | Inr u \<Rightarrow> pager_controls info Ep_page clk s1)
                              else Inr (s1, False))))))"

text \<open>One location of the results: the heading, the caption, the residents.\<close>

definition location_row :: "batch \<Rightarrow> json \<Rightarrow> py_error + unit" where
  "location_row fetch loc =
     and_then (py_item loc ''name'') (\<lambda>name.
     and_then (py_item loc ''type'') (\<lambda>loc_type.
     and_then (py_item loc ''dimension'') (\<lambda>dimension.
     and_then (py_item loc ''id'') (\<lambda>loc_id.
     and_then (dict_get loc ''residents'' (JArr [])) (\<lambda>urls.
     and_then (fetch urls 10) (\<lambda>residents.
       if residents \<noteq> [] then name_chips residents else Inr ()))))))"

definition location_rows :: "batch \<Rightarrow> json \<Rightarrow> py_error + unit" where
  "location_rows fetch res = and_then (py_iter res) (for_each (location_row fetch))"

definition render_locations :: "api \<Rightarrow> batch \<Rightarrow> loc_inputs \<Rightarrow> click \<Rightarrow> session_state \<Rightarrow> py_error + session_state \<times> bool" where
  "render_locations get fetch w clk s =
     (case loc_request w s of
        Inl e \<Rightarrow> Inl e
      | Inr (s1, ps) \<Rightarrow>
          (case get ''location'' (Some ps) of
             Inl e \<Rightarrow> Inl e
           | Inr data \<Rightarrow>
               (case has_error data of
                  Inl e \<Rightarrow> Inl e
                | Inr True \<Rightarrow> (case data of JObj kvs \<Rightarrow> Inr (s1, False) | _ \<Rightarrow> Inl TypeError)
                | Inr False \<Rightarrow>
                    (case dict_get data ''info'' (JObj []) of
                       Inl e \<Rightarrow> Inl e
                     | Inr info \<Rightarrow>
                         (case dict_get data ''results'' (JArr []) of
                            Inl e \<Rightarrow> Inl e
                          | Inr res \<Rightarrow>
                              if truthy res
                              then (case location_rows fetch res of
                                      Inl e \<Rightarrow> Inl e
                                    | Inr u \<Rightarrow> pager_controls info Loc_page clk s1)
                              else Inr (s1, False))))))"

subsection \<open>\<open>fetch_multiple\<close> on decoded JSON\<close>

text \<open>
  The views pass \<open>ep.get("characters", [])\<close> and \<open>loc.get("residents", [])\<close>, whatever
  the upstream sent under these keys, so the body of \<open>fetch_multiple\<close> is also given for
  an argument that is any decoded JSON. The comprehension iterates the argument and keeps
  the true elements; \<open>extract_id_from_url\<close> returns the empty string for an element
  that is not a string (\<open>re.search\<close> raises a type error, which the handler catches);
  \<open>urls[0]\<close> and the test for \<open>character\<close> in it are outside any handler. The request
  itself is the part of the body inside \<open>try\<close>.
\<close>

definition batch_request :: "upstream \<Rightarrow> string \<Rightarrow> batch_result" where
  "batch_request up url =
     (case up url None of
        Raised msg \<Rightarrow>
          \<lparr>entities = [], notices = [''Error fetching bulk data: '' @ msg], sent = [(url, None)]\<rparr>
      | Responded r \<Rightarrow>
          if status_code r = 200
          then (case r_json r of
                  Inl msg \<Rightarrow>
                    \<lparr>entities = [], notices = [''Error fetching bulk data: '' @ msg],
                     sent = [(url, None)]\<rparr>
                | Inr result \<Rightarrow>
                    \<lparr>entities = (case result of JArr xs \<Rightarrow> xs | _ \<Rightarrow> [result]),
                     notices = [], sent = [(url, None)]\<rparr>)
          else \<lparr>entities = [], notices = [], sent = [(url, None)]\<rparr>)"

definition item_id :: "json \<Rightarrow> string" where
  "item_id u = (case u of JStr t \<Rightarrow> extract_id_from_url t | _ \<Rightarrow> [])"

definition fetch_multiple_json :: "upstream \<Rightarrow> json \<Rightarrow> int \<Rightarrow> py_error + batch_result" where
  "fetch_multiple_json up urls limit =
     and_then (py_iter urls) (\<lambda>items.
       let ids = map item_id (filter truthy items) in
       if ids = [] then Inr \<lparr>entities = [], notices = [], sent = []\<rparr>
       else
         and_then (py_first urls) (\<lambda>first.
         and_then (py_in ''character'' first) (\<lambda>is_character.
           Inr (batch_request up
                  (BASE @ (if is_character then ''character'' else ''episode'') @ ''/''
                     @ join '','' (slice_to ids limit))))))"

text \<open>
  \<open>api_get\<close> and \<open>fetch_multiple\<close> as a view sees them when nothing is cached: the
  bodies, run on the upstream.
\<close>

definition direct :: "upstream \<Rightarrow> api" where
  "direct up endpoint ps = fst (api_get up endpoint ps)"

definition batch_direct :: "upstream \<Rightarrow> batch" where
  "batch_direct up urls limit = and_then (fetch_multiple_json up urls limit) (\<lambda>b. Inr (entities b))"

subsection \<open>Fetches one after another\<close>

text \<open>
  A fetch is the upstream as it is at that moment, the time, the endpoint and the
  parameters. A run of fetches passes the store of the decorated \<open>api_get\<close> along.
\<close>

type_synonym fetch = "upstream \<times> nat \<times> string \<times> params option"





subsection \<open>Reading a bulk URL\<close>

text \<open>
  The upstream reads the identifiers of a bulk request off the last part of the URL, at
  the commas. \<open>split_on\<close> is \<open>str.split\<close> with a separator of one character.
\<close>

fun split_on :: "char \<Rightarrow> string \<Rightarrow> string list" where
  "split_on sep [] = [[]]"
| "split_on sep (c # cs) =
     (if c = sep then [] # split_on sep cs
      else (c # hd (split_on sep cs)) # tl (split_on sep cs))"

text \<open>The session state as the script sets it up before the first run.\<close>

definition start_state :: session_state where
  "start_state =
     \<lparr>page_view = ''Characters'', selected_char_id = None, char_page = 1, ep_page = 1,
      loc_page = 1, theme = ''dark'', q_name = [], q_status = [], q_species = [],
      q_gender = []\<rparr>"

subsection \<open>Concrete inputs\<close>

text \<open>Upstreams that answer every request alike, and the values used as examples below.\<close>

definition always :: "response \<Rightarrow> upstream" where
  "always r url ps = Responded r"

definition failing :: "string \<Rightarrow> upstream" where
  "failing msg url ps = Raised msg"

definition episode_28 :: json where
  "episode_28 = JObj [(''id'', JNum 28), (''name'', JStr ''The Ricklantis Mixup'')]"

definition episode_28_response :: response where
  "episode_28_response =
     \<lparr>status_code = 200, r_text = ''{\"id\":28,\"name\":\"The Ricklantis Mixup\"}'',
      r_json = Inr episode_28\<rparr>"

definition not_found_response :: response where
  "not_found_response =
     \<lparr>status_code = 404, r_text = ''{\"error\":\"There is nothing here\"}'',
      r_json = Inr (JObj [(''error'', JStr ''There is nothing here'')])\<rparr>"

definition five_alive_info :: "(string \<times> json) list" where
  "five_alive_info = [(''count'', JNum 5), (''pages'', JNum 1), (''next'', JNull), (''prev'', JNull)]"

definition five_alive_results :: json where
  "five_alive_results =
     JArr [JObj [(''id'', JNum 1), (''name'', JStr ''Rick Sanchez''), (''status'', JStr ''Alive'')],
           JObj [(''id'', JNum 2), (''name'', JStr ''Morty Smith''), (''status'', JStr ''Alive'')],
           JObj [(''id'', JNum 3), (''name'', JStr ''Summer Smith''), (''status'', JStr ''Alive'')],
           JObj [(''id'', JNum 4), (''name'', JStr ''Beth Smith''), (''status'', JStr ''Alive'')],
           JObj [(''id'', JNum 5), (''name'', JStr ''Jerry Smith''), (''status'', JStr ''Alive'')]]"

definition five_alive_fields :: "(string \<times> json) list" where
  "five_alive_fields = [(''info'', JObj five_alive_info), (''results'', five_alive_results)]"

definition five_alive :: json where
  "five_alive = JObj five_alive_fields"

definition five_alive_response :: response where
  "five_alive_response =
     \<lparr>status_code = 200,
      r_text = ''{\"info\":{\"count\":5,\"pages\":1,\"next\":null,\"prev\":null},\"results\":[{\"id\":1,\"name\":\"Rick Sanchez\",\"status\":\"Alive\"},{\"id\":2,\"name\":\"Morty Smith\",\"status\":\"Alive\"},{\"id\":3,\"name\":\"Summer Smith\",\"status\":\"Alive\"},{\"id\":4,\"name\":\"Beth Smith\",\"status\":\"Alive\"},{\"id\":5,\"name\":\"Jerry Smith\",\"status\":\"Alive\"}]}'',
      r_json = Inr five_alive\<rparr>"

definition not_found_error_fields :: "(string \<times> json) list" where
  "not_found_error_fields =
     [(''error'', JStr ''API Error 404: {\"error\":\"There is nothing here\"}'')]"

text \<open>The character view on page 2 with the status filter set, and its request.\<close>

definition alive_page_2_state :: session_state where
  "alive_page_2_state = start_state\<lparr>char_page := 2, q_status := ''alive''\<rparr>"

definition alive_page_2 :: params where
  "alive_page_2 = [(''page'', JNum 2), (''status'', JStr ''alive'')]"

text \<open>
  A small upstream: the episode list and the location list have one page of one result
  each, whose two references resolve to two characters.
\<close>

definition one_page_info :: "(string \<times> json) list" where
  "one_page_info = [(''count'', JNum 1),
      (''pages'', JNum 1),
      (''next'', JNull),
      (''prev'', JNull)]"

definition pilot_episode :: json where
  "pilot_episode =
     JObj [(''id'', JNum 1),
      (''name'', JStr ''Pilot''),
      (''air_date'', JStr ''December 2, 2013''),
      (''episode'', JStr ''S01E01''),
      (''characters'', JArr [JStr ''https://rickandmortyapi.com/api/character/1'', JStr ''https://rickandmortyapi.com/api/character/2''])]"

definition episode_page_fields :: "(string \<times> json) list" where
  "episode_page_fields = [(''info'', JObj one_page_info), (''results'', JArr [pilot_episode])]"

definition earth_location :: json where
  "earth_location =
     JObj [(''id'', JNum 1),
      (''name'', JStr ''Earth (C-137)''),
      (''type'', JStr ''Planet''),
      (''dimension'', JStr ''Dimension C-137''),
      (''residents'', JArr [JStr ''https://rickandmortyapi.com/api/character/1'', JStr ''https://rickandmortyapi.com/api/character/2''])]"

definition location_page_fields :: "(string \<times> json) list" where
  "location_page_fields = [(''info'', JObj one_page_info), (''results'', JArr [earth_location])]"

definition two_characters :: "json list" where
  "two_characters =
     [JObj [(''id'', JNum 1), (''name'', JStr ''Rick Sanchez'')],
      JObj [(''id'', JNum 2), (''name'', JStr ''Morty Smith'')]]"

definition ok_response :: "string \<Rightarrow> json \<Rightarrow> response" where
  "ok_response body j = \<lparr>status_code = 200, r_text = body, r_json = Inr j\<rparr>"

definition small_upstream :: upstream where
  "small_upstream url ps =
     (if url = ''https://rickandmortyapi.com/api/episode''
      then Responded (ok_response
             ''{\"info\":{\"count\":1,\"pages\":1,\"next\":null,\"prev\":null},\"results\":[{\"id\":1,\"name\":\"Pilot\",\"air_date\":\"December 2, 2013\",\"episode\":\"S01E01\",\"characters\":[\"https://rickandmortyapi.com/api/character/1\",\"https://rickandmortyapi.com/api/character/2\"]}]}''
             (JObj episode_page_fields))
      else if url = ''https://rickandmortyapi.com/api/location''
      then Responded (ok_response
             ''{\"info\":{\"count\":1,\"pages\":1,\"next\":null,\"prev\":null},\"results\":[{\"id\":1,\"name\":\"Earth (C-137)\",\"type\":\"Planet\",\"dimension\":\"Dimension C-137\",\"residents\":[\"https://rickandmortyapi.com/api/character/1\",\"https://rickandmortyapi.com/api/character/2\"]}]}''
             (JObj location_page_fields))
      else if url = ''https://rickandmortyapi.com/api/character/1,2''
      then Responded (ok_response
             ''[{\"id\":1,\"name\":\"Rick Sanchez\"},{\"id\":2,\"name\":\"Morty Smith\"}]''
             (JArr two_characters))
      else Responded not_found_response)"

section \<open>Properties\<close>

subsection \<open>Request parameters\<close>

lemma char_params_keys:
  "map_of (char_params s) ''page'' = Some (JNum (char_page s))"
  "map_of (char_params s) ''name'' = (if q_name s = [] then None else Some (JStr (q_name s)))"
  "map_of (char_params s) ''status'' = (if q_status s = [] then None else Some (JStr (q_status s)))"
  "map_of (char_params s) ''species'' = (if q_species s = [] then None else Some (JStr (q_species s)))"
  "map_of (char_params s) ''gender'' = (if q_gender s = [] then None else Some (JStr (q_gender s)))"
  by (simp_all add: char_params_def)

lemma ep_params_keys:
  "map_of (ep_params w s) ''page'' = Some (JNum (ep_page s))"
  "map_of (ep_params w s) ''name'' = (if ep_name w = [] then None else Some (JStr (ep_name w)))"
  "map_of (ep_params w s) ''episode'' = (if ep_code w = [] then None else Some (JStr (ep_code w)))"
  by (simp_all add: ep_params_def)

lemma loc_params_keys:
  "map_of (loc_params w s) ''page'' = Some (JNum (loc_page s))"
  "map_of (loc_params w s) ''name'' = (if loc_name w = [] then None else Some (JStr (loc_name w)))"
  "map_of (loc_params w s) ''type'' = (if loc_type w = [] then None else Some (JStr (loc_type w)))"
  by (simp_all add: loc_params_def)

text \<open>
  C10. For every filter state and page number, the request parameters built by each of
  the three views hold the page number under \<open>page\<close>, and hold a filter's key exactly when
  the filter's value is not the empty string (then with that value): an empty filter
  contributes no parameter at all.
\<close>

theorem params_hold_exactly_nonempty_filters:
  "map_of (char_params s) ''page'' = Some (JNum (char_page s))
   \<and> map_of (char_params s) ''name'' = (if q_name s = [] then None else Some (JStr (q_name s)))
   \<and> map_of (char_params s) ''status'' = (if q_status s = [] then None else Some (JStr (q_status s)))
   \<and> map_of (char_params s) ''species'' = (if q_species s = [] then None else Some (JStr (q_species s)))
   \<and> map_of (char_params s) ''gender'' = (if q_gender s = [] then None else Some (JStr (q_gender s)))
   \<and> map_of (ep_params ew s) ''page'' = Some (JNum (ep_page s))
   \<and> map_of (ep_params ew s) ''name'' = (if ep_name ew = [] then None else Some (JStr (ep_name ew)))
   \<and> map_of (ep_params ew s) ''episode'' = (if ep_code ew = [] then None else Some (JStr (ep_code ew)))
   \<and> map_of (loc_params lw s) ''page'' = Some (JNum (loc_page s))
   \<and> map_of (loc_params lw s) ''name'' = (if loc_name lw = [] then None else Some (JStr (loc_name lw)))
   \<and> map_of (loc_params lw s) ''type'' = (if loc_type lw = [] then None else Some (JStr (loc_type lw)))"
  using char_params_keys [of s] ep_params_keys [of ew s] loc_params_keys [of lw s]
  by blast

subsection \<open>The pager\<close>

lemma get_set_page: "get_page key (set_page key n s) = n"
  by (cases key) simp_all

lemma pager_prev:
  assumes "map_of kvs ''pages'' = Some (JNum T)" "1 \<le> get_page key s" "get_page key s \<le> T"
  shows "pager_controls (JObj kvs) key ClickPrev s =
           Inr (if get_page key s = 1 then (s, False)
                else (set_page key (max 1 (get_page key s - 1)) s, True))"
  using assms by (cases key) (auto simp: pager_controls_def dict_get_def st_button_def)

lemma pager_next:
  assumes "map_of kvs ''pages'' = Some (JNum T)" "1 \<le> get_page key s" "get_page key s \<le> T"
  shows "pager_controls (JObj kvs) key ClickNext s =
           Inr (if get_page key s = T then (s, False)
                else (set_page key (min T (get_page key s + 1)) s, True))"
  using assms by (cases key) (auto simp: pager_controls_def dict_get_def st_button_def)

lemma pager_no_click:
  assumes "map_of kvs ''pages'' = Some (JNum T)"
  shows "pager_controls (JObj kvs) key NoClick s = Inr (s, False)"
  using assms by (simp add: pager_controls_def dict_get_def st_button_def)

lemma pager_step:
  assumes "map_of kvs ''pages'' = Some (JNum T)" "1 \<le> get_page key s" "get_page key s \<le> T"
  shows "\<exists>s' r. pager_controls (JObj kvs) key c s = Inr (s', r)
                \<and> 1 \<le> get_page key s' \<and> get_page key s' \<le> T"
proof (cases c)
  case NoClick
  with assms show ?thesis by (auto simp: pager_no_click)
next
  case ClickPrev
  with assms show ?thesis by (auto simp: pager_prev get_set_page)
next
  case ClickNext
  with assms show ?thesis by (auto simp: pager_next get_set_page)
qed

lemma pager_presses_inv:
  assumes "map_of kvs ''pages'' = Some (JNum T)"
  shows "1 \<le> get_page key s \<Longrightarrow> get_page key s \<le> T \<Longrightarrow>
    \<exists>s'. pager_presses (JObj kvs) key cs s = Inr s' \<and> 1 \<le> get_page key s' \<and> get_page key s' \<le> T"
proof (induction cs arbitrary: s)
  case Nil
  then show ?case by simp
next
  case (Cons c cs)
  from pager_step [OF assms Cons.prems] obtain s1 r where
    st: "pager_controls (JObj kvs) key c s = Inr (s1, r)"
    and b: "1 \<le> get_page key s1" "get_page key s1 \<le> T"
    by blast
  from Cons.IH [OF b] st show ?case by simp
qed

lemma pager_prev_page:
  assumes "map_of kvs ''pages'' = Some (JNum T)" "1 \<le> get_page key s" "get_page key s \<le> T"
  shows "\<exists>s' r. pager_controls (JObj kvs) key ClickPrev s = Inr (s', r)
                \<and> get_page key s' = max 1 (get_page key s - 1)
                \<and> r = (get_page key s \<noteq> 1)"
  using assms by (auto simp: pager_prev get_set_page)

lemma pager_next_page:
  assumes "map_of kvs ''pages'' = Some (JNum T)" "1 \<le> get_page key s" "get_page key s \<le> T"
  shows "\<exists>s' r. pager_controls (JObj kvs) key ClickNext s = Inr (s', r)
                \<and> get_page key s' = min T (get_page key s + 1)
                \<and> r = (get_page key s \<noteq> T)"
  using assms by (auto simp: pager_next get_set_page)

text \<open>
  C7. For a pager whose page information reports \<open>T\<close> pages and whose current page \<open>N\<close>
  satisfies \<open>1 \<le> N \<le> T\<close>: pressing Prev leaves a state whose page is \<open>max 1 (N - 1)\<close>, and
  at \<open>N = 1\<close> the button is disabled, so the state stays as it is and no rerun is asked
  for; pressing Next leaves a state whose page is \<open>min T (N + 1)\<close>, and at \<open>N = T\<close> is
  likewise a disabled no-op; nothing but the page of this pager is written; and after any
  sequence of presses the current page is still between \<open>1\<close> and \<open>T\<close>.
\<close>

theorem pager_prev_next_within_bounds:
  assumes "map_of kvs ''pages'' = Some (JNum T)"
    and "1 \<le> get_page key s"
    and "get_page key s \<le> T"
  shows "pager_controls (JObj kvs) key ClickPrev s =
           Inr (if get_page key s = 1 then (s, False)
                else (set_page key (max 1 (get_page key s - 1)) s, True))
       \<and> pager_controls (JObj kvs) key ClickNext s =
           Inr (if get_page key s = T then (s, False)
                else (set_page key (min T (get_page key s + 1)) s, True))
       \<and> (\<exists>s' r. pager_controls (JObj kvs) key ClickPrev s = Inr (s', r)
                  \<and> get_page key s' = max 1 (get_page key s - 1)
                  \<and> r = (get_page key s \<noteq> 1))
       \<and> (\<exists>s' r. pager_controls (JObj kvs) key ClickNext s = Inr (s', r)
                  \<and> get_page key s' = min T (get_page key s + 1)
                  \<and> r = (get_page key s \<noteq> T))
       \<and> (\<exists>s'. pager_presses (JObj kvs) key cs s = Inr s'
                \<and> 1 \<le> get_page key s' \<and> get_page key s' \<le> T)"
  using pager_prev [OF assms] pager_next [OF assms] pager_prev_page [OF assms]
    pager_next_page [OF assms] pager_presses_inv [OF assms]
  by blast

theorem pager_prev_next_within_bounds_witness:
  "map_of [(''count'', JNum 51), (''pages'', JNum 3)] ''pages'' = Some (JNum 3)
   \<and> 1 \<le> get_page Char_page start_state
   \<and> get_page Char_page start_state \<le> 3
   \<and> pager_controls (JObj [(''count'', JNum 51), (''pages'', JNum 3)]) Char_page ClickPrev start_state
       = Inr (start_state, False)
   \<and> pager_controls (JObj [(''count'', JNum 51), (''pages'', JNum 3)]) Char_page ClickNext start_state
       = Inr (start_state\<lparr>char_page := 2\<rparr>, True)
   \<and> 1 \<le> get_page Ep_page (start_state\<lparr>ep_page := 2\<rparr>)
   \<and> get_page Ep_page (start_state\<lparr>ep_page := 2\<rparr>) \<le> 3
   \<and> pager_controls (JObj [(''count'', JNum 51), (''pages'', JNum 3)]) Ep_page ClickPrev
        (start_state\<lparr>ep_page := 2\<rparr>)
       = Inr (start_state\<lparr>ep_page := 1\<rparr>, True)
   \<and> pager_controls (JObj [(''count'', JNum 51), (''pages'', JNum 3)]) Ep_page ClickNext
        (start_state\<lparr>ep_page := 2\<rparr>)
       = Inr (start_state\<lparr>ep_page := 3\<rparr>, True)
   \<and> 1 \<le> get_page Loc_page (start_state\<lparr>loc_page := 3\<rparr>)
   \<and> get_page Loc_page (start_state\<lparr>loc_page := 3\<rparr>) \<le> 3
   \<and> pager_controls (JObj [(''count'', JNum 51), (''pages'', JNum 3)]) Loc_page ClickPrev
        (start_state\<lparr>loc_page := 3\<rparr>)
       = Inr (start_state\<lparr>loc_page := 2\<rparr>, True)
   \<and> pager_controls (JObj [(''count'', JNum 51), (''pages'', JNum 3)]) Loc_page ClickNext
        (start_state\<lparr>loc_page := 3\<rparr>)
       = Inr (start_state\<lparr>loc_page := 3\<rparr>, False)
   \<and> (\<exists>s'. pager_presses (JObj [(''count'', JNum 51), (''pages'', JNum 3)]) Char_page
               [ClickNext, ClickNext, ClickNext, ClickPrev] start_state = Inr s'
            \<and> char_page s' = 2)"
proof -
  let ?info = "[(''count'', JNum 51), (''pages'', JNum 3)]"
  have h1: "map_of ?info ''pages'' = Some (JNum 3)"
    by simp
  have c2: "1 \<le> get_page Char_page start_state"
    and c3: "get_page Char_page start_state \<le> 3"
    and e2: "1 \<le> get_page Ep_page (start_state\<lparr>ep_page := 2\<rparr>)"
    and e3: "get_page Ep_page (start_state\<lparr>ep_page := 2\<rparr>) \<le> 3"
    and l2: "1 \<le> get_page Loc_page (start_state\<lparr>loc_page := 3\<rparr>)"
    and l3: "get_page Loc_page (start_state\<lparr>loc_page := 3\<rparr>) \<le> 3"
    by (simp_all add: start_state_def)
  note tc = pager_prev_next_within_bounds
              [OF h1 c2 c3, of "[ClickNext, ClickNext, ClickNext, ClickPrev]"]
  note te = pager_prev_next_within_bounds [OF h1 e2 e3, of "[]"]
  note tl = pager_prev_next_within_bounds [OF h1 l2 l3, of "[]"]
  have p: "char_page start_state = 1"
    by (simp add: start_state_def)
  have a1: "pager_controls (JObj ?info) Char_page ClickPrev start_state = Inr (start_state, False)"
    using conjunct1 [OF tc] by (simp add: p)
  have a2: "pager_controls (JObj ?info) Char_page ClickNext start_state
              = Inr (start_state\<lparr>char_page := 2\<rparr>, True)"
    using conjunct1 [OF conjunct2 [OF tc]] by (simp add: p)
  have b1: "pager_controls (JObj ?info) Ep_page ClickPrev (start_state\<lparr>ep_page := 2\<rparr>)
              = Inr (start_state\<lparr>ep_page := 1\<rparr>, True)"
    using conjunct1 [OF te] by simp
  have b2: "pager_controls (JObj ?info) Ep_page ClickNext (start_state\<lparr>ep_page := 2\<rparr>)
              = Inr (start_state\<lparr>ep_page := 3\<rparr>, True)"
    using conjunct1 [OF conjunct2 [OF te]] by simp
  have d1: "pager_controls (JObj ?info) Loc_page ClickPrev (start_state\<lparr>loc_page := 3\<rparr>)
              = Inr (start_state\<lparr>loc_page := 2\<rparr>, True)"
    using conjunct1 [OF tl] by simp
  have d2: "pager_controls (JObj ?info) Loc_page ClickNext (start_state\<lparr>loc_page := 3\<rparr>)
              = Inr (start_state\<lparr>loc_page := 3\<rparr>, False)"
    using conjunct1 [OF conjunct2 [OF tl]] by simp
  have run: "pager_presses (JObj ?info) Char_page [ClickNext, ClickNext, ClickNext, ClickPrev]
               start_state = Inr (start_state\<lparr>char_page := 2\<rparr>)"
    by (simp add: pager_controls_def dict_get_def st_button_def start_state_def)
  have sq: "\<exists>s'. pager_presses (JObj ?info) Char_page [ClickNext, ClickNext, ClickNext, ClickPrev]
               start_state = Inr s' \<and> char_page s' = 2"
    using run by simp
  show ?thesis
    using h1 c2 c3 e2 e3 l2 l3 a1 a2 b1 b2 d1 d2 sq by blast
qed

subsection \<open>Identifiers of reference URLs\<close>

lemma slash_not_digit: "\<not> is_digit CHR ''/''"
  by (simp add: is_digit_def)

lemma newline_not_digit: "\<not> is_digit (CHR 0x0A)"
  by (simp add: is_digit_def)

lemma match_id_here_digits:
  assumes "ds \<noteq> []" "\<forall>c\<in>set ds. is_digit c"
  shows "match_id_here (CHR ''/'' # ds) = Some ds"
proof -
  have tw: "takeWhile is_digit ds = ds" and dw: "dropWhile is_digit ds = []"
    using assms(2) by simp_all
  show ?thesis
    unfolding match_id_here_def list.case Let_def tw dw using assms(1) by simp
qed

text \<open>No match can start before the last slash of a string that ends in slash, digits.\<close>

lemma match_id_here_not_last:
  assumes "ds \<noteq> []" "\<forall>c\<in>set ds. is_digit c"
  shows "match_id_here (c # p @ CHR ''/'' # ds) = None"
proof (cases "c = CHR ''/''")
  case False
  then show ?thesis by (simp add: match_id_here_def)
next
  case True
  obtain d ds' where ds: "ds = d # ds'" using assms(1) by (cases ds) auto
  have d: "is_digit d" using assms(2) ds by simp
  have dn: "d \<noteq> CHR 0x0A" using d newline_not_digit by auto
  define q where "q = dropWhile is_digit p"
  define t where "t = dropWhile is_digit (p @ CHR ''/'' # ds)"
  have t: "t = q @ CHR ''/'' # d # ds'"
    unfolding t_def q_def ds by (simp add: dropWhile_append3 slash_not_digit)
  have "t \<noteq> []" "t \<noteq> ''/''" "t \<noteq> [CHR 0x0A]" "t \<noteq> [CHR ''/'', CHR 0x0A]"
    using dn unfolding t by (cases q; auto simp: append_eq_Cons_conv)+
  then show ?thesis
    using True unfolding t_def by (simp add: match_id_here_def Let_def)
qed

lemma re_search_id_trailing_digits:
  assumes "ds \<noteq> []" "\<forall>c\<in>set ds. is_digit c"
  shows "re_search_id (p @ CHR ''/'' # ds) = Some ds"
proof (induction p)
  case Nil
  show ?case using match_id_here_digits [OF assms] by simp
next
  case (Cons c p)
  show ?case using match_id_here_not_last [OF assms, of c p] Cons.IH by simp
qed

lemma extract_id_trailing_digits:
  assumes "ds \<noteq> []" "\<forall>c\<in>set ds. is_digit c"
  shows "extract_id_from_url (p @ CHR ''/'' # ds) = ds"
  by (simp add: extract_id_from_url_def re_search_id_trailing_digits [OF assms])

text \<open>Whatever is extracted consists of digits.\<close>

lemma match_id_here_all_digits: "match_id_here u = Some ds \<Longrightarrow> list_all is_digit ds"
  by (auto simp: match_id_here_def Let_def list_all_iff split: list.splits if_splits
      dest: set_takeWhileD)

lemma re_search_id_all_digits: "re_search_id u = Some ds \<Longrightarrow> list_all is_digit ds"
  by (induction u) (auto split: option.splits dest: match_id_here_all_digits)

lemma extract_id_all_digits: "list_all is_digit (extract_id_from_url u)"
  by (auto simp: extract_id_from_url_def split: option.splits dest: re_search_id_all_digits)

text \<open>A string that ends in a slash with no digit before it has no match at all.\<close>

lemma match_id_here_no_digit_before_slash:
  assumes "\<not> is_digit c"
  shows "match_id_here (x # p @ [c, CHR ''/'']) = None"
proof (cases "x = CHR ''/''")
  case False
  then show ?thesis by (simp add: match_id_here_def)
next
  case True
  define q where "q = dropWhile is_digit p"
  define t where "t = dropWhile is_digit (p @ [c, CHR ''/''])"
  have t: "t = q @ [c, CHR ''/'']"
    unfolding t_def q_def using assms by (simp add: dropWhile_append3 slash_not_digit)
  have "t \<noteq> []" "t \<noteq> ''/''" "t \<noteq> [CHR 0x0A]" "t \<noteq> [CHR ''/'', CHR 0x0A]"
    unfolding t by (cases q; auto simp: append_eq_Cons_conv)+
  then show ?thesis
    using True unfolding t_def by (simp add: match_id_here_def Let_def)
qed

lemma re_search_id_no_digit_before_slash:
  assumes "\<not> is_digit c"
  shows "re_search_id (p @ [c, CHR ''/'']) = None"
proof (induction p)
  case Nil
  show ?case using assms by (simp add: match_id_here_def slash_not_digit)
next
  case (Cons x p)
  show ?case using match_id_here_no_digit_before_slash [OF assms, of x p] Cons.IH by simp
qed

lemma extract_id_no_digit_before_slash:
  assumes "\<not> is_digit c"
  shows "extract_id_from_url (p @ [c, CHR ''/'']) = []"
  by (simp add: extract_id_from_url_def re_search_id_no_digit_before_slash [OF assms])

subsection \<open>The batch\<close>

lemma ids_of_nonempty: "ids_of urls \<noteq> [] \<Longrightarrow> urls \<noteq> []"
  by (auto simp: ids_of_def)

lemma ids_of_first_nonempty: "u \<noteq> [] \<Longrightarrow> ids_of (u # rest) \<noteq> []"
  by (simp add: ids_of_def)



lemma not_contains_digits: "\<forall>c\<in>set ds. is_digit c \<Longrightarrow> \<not> contains ds ''character''"
  by (induction ds) (auto simp: is_digit_def)

lemma character_url_contains: "contains (BASE @ ''character/'' @ i) ''character''"
  by (simp add: BASE_def)

lemma episode_url_not_contains:
  "\<forall>c\<in>set i. is_digit c \<Longrightarrow> \<not> contains (BASE @ ''episode/'' @ i) ''character''"
  using not_contains_digits [of i] by (simp add: BASE_def)

lemma location_url_not_contains:
  "\<forall>c\<in>set i. is_digit c \<Longrightarrow> \<not> contains (BASE @ ''location/'' @ i) ''character''"
  using not_contains_digits [of i] by (simp add: BASE_def)


lemma fetch_multiple_sent:
  "ids_of urls \<noteq> [] \<Longrightarrow> sent (fetch_multiple up urls n) = [(bulk_url urls n, None)]"
  by (simp add: fetch_multiple_def split: outcome.split sum.split)

lemma fetch_multiple_ok:
  assumes "ids_of urls \<noteq> []" "up (bulk_url urls n) None = Responded r"
    and "status_code r = 200" "r_json r = Inr result"
  shows "entities (fetch_multiple up urls n) = (case result of JArr xs \<Rightarrow> xs | _ \<Rightarrow> [result])"
  using assms by (simp add: fetch_multiple_def)

text \<open>
  C9. When the batch request is answered with status 200 and a decodable body, a body
  that is a list is returned as it is, and a body that is anything else (a bare object)
  is returned as the list of exactly that one element.
\<close>

theorem batch_response_is_a_sequence:
  assumes "ids_of urls \<noteq> []"
    and "up (bulk_url urls n) None = Responded r"
    and "status_code r = 200"
    and "r_json r = Inr result"
  shows "(\<forall>xs. result = JArr xs \<longrightarrow> entities (fetch_multiple up urls n) = xs)
       \<and> ((\<forall>xs. result \<noteq> JArr xs) \<longrightarrow> entities (fetch_multiple up urls n) = [result])"
  using fetch_multiple_ok [where up = up and urls = urls and n = n and r = r, OF assms]
  by (cases result) simp_all

theorem batch_response_is_a_sequence_witness:
  "ids_of [''https://rickandmortyapi.com/api/episode/28''] \<noteq> []
   \<and> always episode_28_response (bulk_url [''https://rickandmortyapi.com/api/episode/28''] 1) None
       = Responded episode_28_response
   \<and> status_code episode_28_response = 200
   \<and> r_json episode_28_response = Inr episode_28
   \<and> entities (fetch_multiple (always episode_28_response)
                 [''https://rickandmortyapi.com/api/episode/28''] 1) = [episode_28]"
proof -
  have h1: "ids_of [''https://rickandmortyapi.com/api/episode/28''] \<noteq> []"
    by (simp add: ids_of_def)
  have h2: "always episode_28_response
              (bulk_url [''https://rickandmortyapi.com/api/episode/28''] 1) None
            = Responded episode_28_response"
    by (simp add: always_def)
  have h3: "status_code episode_28_response = 200"
    by (simp add: episode_28_response_def)
  have h4: "r_json episode_28_response = Inr episode_28"
    by (simp add: episode_28_response_def)
  have "\<forall>xs. episode_28 \<noteq> JArr xs"
    by (simp add: episode_28_def)
  then show ?thesis
    using h1 h2 h3 h4
      batch_response_is_a_sequence
        [where up = "always episode_28_response" and n = 1 and r = episode_28_response
           and urls = "[''https://rickandmortyapi.com/api/episode/28'']", OF h1 h2 h3 h4]
    by blast
qed

lemma extract_id_examples:
  "extract_id_from_url ''https://rickandmortyapi.com/api/episode/28'' = ''28''"
  "extract_id_from_url ''https://rickandmortyapi.com/api/episode/1'' = ''1''"
  "extract_id_from_url ''https://rickandmortyapi.com/api/episode/2'' = ''2''"
  "extract_id_from_url ''https://rickandmortyapi.com/api/episode/3'' = ''3''"
  "extract_id_from_url ''https://rickandmortyapi.com/api/character/2'' = ''2''"
  "extract_id_from_url ''https://rickandmortyapi.com/api/location/3'' = ''3''"
  using extract_id_trailing_digits [of "''28''" "''https://rickandmortyapi.com/api/episode''"]
    extract_id_trailing_digits [of "''1''" "''https://rickandmortyapi.com/api/episode''"]
    extract_id_trailing_digits [of "''2''" "''https://rickandmortyapi.com/api/episode''"]
    extract_id_trailing_digits [of "''3''" "''https://rickandmortyapi.com/api/episode''"]
    extract_id_trailing_digits [of "''2''" "''https://rickandmortyapi.com/api/character''"]
    extract_id_trailing_digits [of "''3''" "''https://rickandmortyapi.com/api/location''"]
  by (simp_all add: is_digit_def)

lemma extract_id_malformed_example:
  "extract_id_from_url ''https://rickandmortyapi.com/api/episode/'' = []"
  using extract_id_no_digit_before_slash
          [of "CHR ''e''" "''https://rickandmortyapi.com/api/episod''"]
  by (simp add: is_digit_def)

text \<open>
  C4, as stated, fails: only a URL that is the empty string is left out. For the URLs
  \<open>.../episode/28\<close> and \<open>.../episode/\<close> the second yields the empty identifier, which
  stays in the batch, and the bulk URL ends in \<open>28,\<close>.
\<close>

theorem unparsable_url_stays_in_batch:
  "extract_id_from_url ''https://rickandmortyapi.com/api/episode/'' = []
   \<and> [] \<in> set (ids_to_fetch [''https://rickandmortyapi.com/api/episode/28'',
                               ''https://rickandmortyapi.com/api/episode/''] 8)
   \<and> bulk_url [''https://rickandmortyapi.com/api/episode/28'',
                ''https://rickandmortyapi.com/api/episode/''] 8
       = ''https://rickandmortyapi.com/api/episode/28,''"
  by (simp add: bulk_url_def endpoint_of_def ids_to_fetch_def ids_of_def slice_to_def
      extract_id_examples extract_id_malformed_example BASE_def)

lemma ids_to_fetch_eq:
  "ids_to_fetch urls n = map extract_id_from_url (slice_to (filter (\<lambda>u. u \<noteq> []) urls) n)"
  by (simp add: ids_to_fetch_def ids_of_def slice_to_def take_map)

lemma ids_of_empty_iff: "ids_of urls = [] \<longleftrightarrow> filter (\<lambda>u. u \<noteq> []) urls = []"
  by (simp add: ids_of_def)

lemma comma_not_digit: "\<not> is_digit CHR '',''"
  by (simp add: is_digit_def)

lemma extract_id_no_comma: "CHR '','' \<notin> set (extract_id_from_url u)"
  using extract_id_all_digits [of u] comma_not_digit by (auto simp: list_all_iff)

lemma split_on_no_sep: "sep \<notin> set x \<Longrightarrow> split_on sep x = [x]"
  by (induction x) auto

lemma split_on_append_sep: "sep \<notin> set x \<Longrightarrow> split_on sep (x @ sep # rest) = x # split_on sep rest"
  by (induction x) auto

text \<open>Splitting at the separator gives back what was joined, when no part holds the separator.\<close>

lemma split_on_join:
  assumes "xs \<noteq> []" "\<forall>x\<in>set xs. sep \<notin> set x"
  shows "split_on sep (join [sep] xs) = xs"
  using assms
proof (induction xs)
  case Nil
  then show ?case by simp
next
  case (Cons x xs)
  show ?case
  proof (cases xs)
    case Nil
    with Cons.prems show ?thesis by (simp add: split_on_no_sep)
  next
    case (Cons y ys)
    with Cons.prems Cons.IH show ?thesis by (simp add: split_on_append_sep)
  qed
qed

lemma split_bulk_path:
  assumes "slice_to (filter (\<lambda>u. u \<noteq> []) urls) n \<noteq> []"
  shows "split_on CHR '','' (join '','' (ids_to_fetch urls n)) = ids_to_fetch urls n"
proof (rule split_on_join)
  show "ids_to_fetch urls n \<noteq> []"
    using assms by (simp add: ids_to_fetch_eq)
  show "\<forall>x\<in>set (ids_to_fetch urls n). CHR '','' \<notin> set x"
    by (auto simp: ids_to_fetch_eq extract_id_no_comma)
qed

text \<open>
  C4, amended. For every input list of reference URLs and every limit, the identifiers of
  the batch request, which are what the bulk URL holds between its commas, are the
  identifiers extracted from the non-empty URLs that the limit keeps, in their order: a
  URL that is the empty string contributes nothing, a URL past the limit contributes
  nothing, and every kept URL contributes its extracted identifier, empty or not. A URL
  that ends in a slash and digits contributes those digits (\<open>.../episode/28\<close> contributes
  \<open>28\<close>); a URL that ends in a slash with no digit before it (\<open>.../episode/\<close>)
  contributes the empty identifier.
\<close>

theorem batch_holds_ids_of_kept_nonempty_urls:
  "(filter (\<lambda>u. u \<noteq> []) urls \<noteq> [] \<longrightarrow>
      sent (fetch_multiple up urls n)
        = [(BASE @ endpoint_of urls @ ''/''
              @ join '','' (map extract_id_from_url (slice_to (filter (\<lambda>u. u \<noteq> []) urls) n)),
            None)])
   \<and> (slice_to (filter (\<lambda>u. u \<noteq> []) urls) n \<noteq> [] \<longrightarrow>
        split_on CHR '','' (join '','' (map extract_id_from_url
                                         (slice_to (filter (\<lambda>u. u \<noteq> []) urls) n)))
          = map extract_id_from_url (slice_to (filter (\<lambda>u. u \<noteq> []) urls) n))
   \<and> (ds \<noteq> [] \<and> list_all is_digit ds \<longrightarrow> extract_id_from_url (p @ CHR ''/'' # ds) = ds)
   \<and> (\<not> is_digit c \<longrightarrow> extract_id_from_url (q @ [c, CHR ''/'']) = [])"
proof -
  have a: "filter (\<lambda>u. u \<noteq> []) urls \<noteq> [] \<longrightarrow>
      sent (fetch_multiple up urls n)
        = [(BASE @ endpoint_of urls @ ''/''
              @ join '','' (map extract_id_from_url (slice_to (filter (\<lambda>u. u \<noteq> []) urls) n)),
            None)]"
    using fetch_multiple_sent [of urls up n]
    by (simp add: ids_of_empty_iff bulk_url_def ids_to_fetch_eq)
  have b: "slice_to (filter (\<lambda>u. u \<noteq> []) urls) n \<noteq> [] \<longrightarrow>
        split_on CHR '','' (join '','' (map extract_id_from_url
                                         (slice_to (filter (\<lambda>u. u \<noteq> []) urls) n)))
          = map extract_id_from_url (slice_to (filter (\<lambda>u. u \<noteq> []) urls) n)"
    using split_bulk_path [of urls n] by (simp add: ids_to_fetch_eq)
  have c: "ds \<noteq> [] \<and> list_all is_digit ds \<longrightarrow> extract_id_from_url (p @ CHR ''/'' # ds) = ds"
    using extract_id_trailing_digits [of ds p] by (simp add: list_all_iff)
  have d: "\<not> is_digit c \<longrightarrow> extract_id_from_url (q @ [c, CHR ''/'']) = []"
    using extract_id_no_digit_before_slash [of c q] by simp
  from a b c d show ?thesis by blast
qed

theorem batch_holds_ids_of_kept_nonempty_urls_witness:
  "filter (\<lambda>u. u \<noteq> [])
     [''https://rickandmortyapi.com/api/episode/28'', [],
      ''https://rickandmortyapi.com/api/episode/'',
      ''https://rickandmortyapi.com/api/episode/1'']
     = [''https://rickandmortyapi.com/api/episode/28'',
        ''https://rickandmortyapi.com/api/episode/'',
        ''https://rickandmortyapi.com/api/episode/1'']
   \<and> slice_to [''https://rickandmortyapi.com/api/episode/28'',
                ''https://rickandmortyapi.com/api/episode/'',
                ''https://rickandmortyapi.com/api/episode/1''] 2
     = [''https://rickandmortyapi.com/api/episode/28'',
        ''https://rickandmortyapi.com/api/episode/'']
   \<and> sent (fetch_multiple (always episode_28_response)
             [''https://rickandmortyapi.com/api/episode/28'', [],
              ''https://rickandmortyapi.com/api/episode/'',
              ''https://rickandmortyapi.com/api/episode/1''] 2)
     = [(''https://rickandmortyapi.com/api/episode/28,'', None)]
   \<and> split_on CHR '','' ''28,'' = [''28'', []]
   \<and> ''28'' \<noteq> [] \<and> list_all is_digit ''28'' \<and> \<not> is_digit CHR ''e''
   \<and> extract_id_from_url ''https://rickandmortyapi.com/api/episode/28'' = ''28''
   \<and> extract_id_from_url ''https://rickandmortyapi.com/api/episode/'' = []"
proof -
  let ?urls = "[''https://rickandmortyapi.com/api/episode/28'', [],
                ''https://rickandmortyapi.com/api/episode/'',
                ''https://rickandmortyapi.com/api/episode/1'']"
  let ?kept = "[''https://rickandmortyapi.com/api/episode/28'',
                ''https://rickandmortyapi.com/api/episode/'']"
  have f: "filter (\<lambda>u. u \<noteq> []) ?urls
             = [''https://rickandmortyapi.com/api/episode/28'',
                ''https://rickandmortyapi.com/api/episode/'',
                ''https://rickandmortyapi.com/api/episode/1'']"
    by simp
  have k: "slice_to [''https://rickandmortyapi.com/api/episode/28'',
                     ''https://rickandmortyapi.com/api/episode/'',
                     ''https://rickandmortyapi.com/api/episode/1''] 2 = ?kept"
    by (simp add: slice_to_def)
  have e: "endpoint_of ?urls = ''episode''"
    by (simp add: endpoint_of_def)
  have h1: "''28'' \<noteq> [] \<and> list_all is_digit ''28''"
    by (simp add: is_digit_def)
  have h2: "\<not> is_digit CHR ''e''"
    by (simp add: is_digit_def)
  note t = batch_holds_ids_of_kept_nonempty_urls
             [of ?urls "always episode_28_response" 2 "''28''"
                 "''https://rickandmortyapi.com/api/episode''"
                 "CHR ''e''" "''https://rickandmortyapi.com/api/episod''"]
  have x1: "extract_id_from_url ''https://rickandmortyapi.com/api/episode/28'' = ''28''"
    using conjunct1 [OF conjunct2 [OF conjunct2 [OF t]]] h1 by simp
  have x2: "extract_id_from_url ''https://rickandmortyapi.com/api/episode/'' = []"
    using conjunct2 [OF conjunct2 [OF conjunct2 [OF t]]] h2 by simp
  have a: "sent (fetch_multiple (always episode_28_response) ?urls 2)
             = [(''https://rickandmortyapi.com/api/episode/28,'', None)]"
    using conjunct1 [OF t] unfolding f k e by (simp add: x1 x2 BASE_def)
  have b: "split_on CHR '','' ''28,'' = [''28'', []]"
    using conjunct1 [OF conjunct2 [OF t]] unfolding f k by (simp add: x1 x2)
  show ?thesis
    using f k a b h1 h2 x1 x2 by blast
qed

text \<open>
  C6, as stated, fails for the location kind: the bulk request for a list of location
  URLs is sent to the episode endpoint.
\<close>

theorem location_batch_goes_to_episode_endpoint:
  "sent (fetch_multiple (always episode_28_response)
           [''https://rickandmortyapi.com/api/location/3''] 8)
     = [(''https://rickandmortyapi.com/api/episode/3'', None)]"
  by (simp add: fetch_multiple_def always_def episode_28_response_def episode_28_def
      bulk_url_def endpoint_of_def ids_to_fetch_def ids_of_def slice_to_def
      extract_id_examples BASE_def)

text \<open>
  C6, amended. For every non-empty list of reference URLs, the endpoint of the bulk
  request is determined by the first URL alone: it is the character endpoint when the
  first URL is a character URL, and the episode endpoint when the first URL is an
  episode URL; a location URL in the first place also leads to the episode endpoint.
\<close>

theorem batch_endpoint_from_first_url:
  assumes "list_all is_digit i"
  shows "sent (fetch_multiple up ((BASE @ ''character/'' @ i) # rest) n)
           = [(BASE @ ''character/''
                 @ join '','' (ids_to_fetch ((BASE @ ''character/'' @ i) # rest) n), None)]
       \<and> sent (fetch_multiple up ((BASE @ ''episode/'' @ i) # rest) n)
           = [(BASE @ ''episode/''
                 @ join '','' (ids_to_fetch ((BASE @ ''episode/'' @ i) # rest) n), None)]
       \<and> sent (fetch_multiple up ((BASE @ ''location/'' @ i) # rest) n)
           = [(BASE @ ''episode/''
                 @ join '','' (ids_to_fetch ((BASE @ ''location/'' @ i) # rest) n), None)]"
proof -
  have ne: "\<And>k. ids_of ((BASE @ k @ i) # rest) \<noteq> []"
    by (rule ids_of_first_nonempty) (simp add: BASE_def)
  have digits: "\<forall>c\<in>set i. is_digit c"
    using assms by (simp add: list_all_iff)
  have c: "endpoint_of ((BASE @ ''character/'' @ i) # rest) = ''character''"
    using character_url_contains [of i] by (simp add: endpoint_of_def)
  have e: "endpoint_of ((BASE @ ''episode/'' @ i) # rest) = ''episode''"
    using episode_url_not_contains [OF digits] by (simp add: endpoint_of_def)
  have l: "endpoint_of ((BASE @ ''location/'' @ i) # rest) = ''episode''"
    using location_url_not_contains [OF digits] by (simp add: endpoint_of_def)
  have A: "sent (fetch_multiple up ((BASE @ ''character/'' @ i) # rest) n)
           = [(BASE @ ''character/''
                 @ join '','' (ids_to_fetch ((BASE @ ''character/'' @ i) # rest) n), None)]"
    unfolding fetch_multiple_sent [OF ne [of "''character/''"]] bulk_url_def c by simp
  have B: "sent (fetch_multiple up ((BASE @ ''episode/'' @ i) # rest) n)
           = [(BASE @ ''episode/''
                 @ join '','' (ids_to_fetch ((BASE @ ''episode/'' @ i) # rest) n), None)]"
    unfolding fetch_multiple_sent [OF ne [of "''episode/''"]] bulk_url_def e by simp
  have C: "sent (fetch_multiple up ((BASE @ ''location/'' @ i) # rest) n)
           = [(BASE @ ''episode/''
                 @ join '','' (ids_to_fetch ((BASE @ ''location/'' @ i) # rest) n), None)]"
    unfolding fetch_multiple_sent [OF ne [of "''location/''"]] bulk_url_def l by simp
  from A B C show ?thesis by blast
qed

theorem batch_endpoint_from_first_url_witness:
  "list_all is_digit ''2''
   \<and> sent (fetch_multiple (always episode_28_response)
             [''https://rickandmortyapi.com/api/character/2''] 8)
       = [(''https://rickandmortyapi.com/api/character/2'', None)]
   \<and> sent (fetch_multiple (always episode_28_response)
             [''https://rickandmortyapi.com/api/episode/2''] 8)
       = [(''https://rickandmortyapi.com/api/episode/2'', None)]"
proof -
  have h: "list_all is_digit ''2''"
    by (simp add: is_digit_def)
  have i1: "ids_to_fetch [''https://rickandmortyapi.com/api/character/2''] 8 = [''2'']"
    by (simp add: ids_to_fetch_def ids_of_def slice_to_def extract_id_examples)
  have i2: "ids_to_fetch [''https://rickandmortyapi.com/api/episode/2''] 8 = [''2'']"
    by (simp add: ids_to_fetch_def ids_of_def slice_to_def extract_id_examples)
  note t = batch_endpoint_from_first_url
             [OF h, of "always episode_28_response" "[]" 8, unfolded BASE_def, simplified]
  show ?thesis
    using h t i1 i2 by simp
qed





subsection \<open>Fetching and the cache\<close>

lemma str_int_404: "str_int 404 = ''404''"
  by (simp add: str_int_def str_nat.simps)

lemma cache_insert_keys:
  "set (butlast (cache_insert m ttl now st k v)) \<subseteq> {e \<in> set st. fst e \<noteq> k}"
  by (auto simp: cache_insert_def Let_def split: option.split dest: in_set_dropD)

text \<open>An entry that was just stored is served while it is younger than the time to live.\<close>

lemma cache_lookup_insert:
  assumes "now' < now + ttl"
  shows "cache_lookup ttl now' (cache_insert m ttl now st k v) k = Some v"
proof -
  define kept where "kept = butlast (cache_insert m ttl now st k v)"
  have ci: "cache_insert m ttl now st k v = kept @ [(k, v, now)]"
    unfolding kept_def by (simp add: cache_insert_def Let_def split: option.split)
  have nk: "k \<notin> fst ` set (filter (fresh ttl now') kept)"
    using cache_insert_keys [of m ttl now st k v] unfolding kept_def by auto
  then have "map_of (filter (fresh ttl now') kept) k = None"
    by (simp add: map_of_eq_None_iff)
  moreover have "fresh ttl now' (k, v, now)"
    using assms by (simp add: fresh_def)
  ultimately show ?thesis
    by (simp add: cache_lookup_def ci map_add_def)
qed







text \<open>
  C2 names a property that \<open>api_get\<close> does not have: it has no handler around
  \<open>requests.get\<close>, so a transport failure leaves it as an exception, also through the
  decorator and through the view that called it. (\<open>fetch_multiple\<close> has the handler.)
\<close>

theorem api_get_lets_transport_failure_through:
  "fst (api_get (failing msg) e ps) = Inl (RequestException msg)
   \<and> fst (fst (api_get_cached (failing msg) [] now e ps)) = Inl (RequestException msg)
   \<and> render_character_list (direct (failing msg)) clk s = Inl (RequestException msg)"
  by (simp add: api_get_def failing_def api_get_cached_def cache_data_def cache_lookup_def
      render_character_list_def direct_def)












subsection \<open>The batch on decoded JSON\<close>

lemma fetch_multiple_as_request:
  "fetch_multiple up urls n =
     (if ids_of urls = [] then \<lparr>entities = [], notices = [], sent = []\<rparr>
      else batch_request up (bulk_url urls n))"
  by (simp add: fetch_multiple_def batch_request_def)

text \<open>On a list of strings the body given for decoded JSON is the body given for strings.\<close>

lemma fetch_multiple_json_strings:
  "fetch_multiple_json up (JArr (map JStr urls)) n = Inr (fetch_multiple up urls n)"
proof -
  have f: "filter truthy (map JStr urls) = map JStr (filter (\<lambda>u. u \<noteq> []) urls)"
    by (induction urls) auto
  have ids: "map item_id (filter truthy (map JStr urls)) = ids_of urls"
    by (simp add: f ids_of_def item_id_def comp_def)
  have body: "fetch_multiple_json up (JArr (map JStr urls)) n =
     (if ids_of urls = [] then Inr \<lparr>entities = [], notices = [], sent = []\<rparr>
      else and_then (py_first (JArr (map JStr urls))) (\<lambda>first.
           and_then (py_in ''character'' first) (\<lambda>is_character.
             Inr (batch_request up
                    (BASE @ (if is_character then ''character'' else ''episode'') @ ''/''
                       @ join '','' (slice_to (ids_of urls) n))))))"
    unfolding fetch_multiple_json_def py_iter.simps and_then_def sum.case Let_def ids ..
  show ?thesis
  proof (cases "ids_of urls = []")
    case True
    then show ?thesis
      by (simp add: body fetch_multiple_as_request)
  next
    case False
    then obtain u rest where u: "urls = u # rest"
      using ids_of_nonempty by (cases urls) auto
    have first: "py_first (JArr (map JStr urls)) = Inr (JStr u)"
      by (simp add: u py_first_def)
    have isc: "py_in ''character'' (JStr u) = Inr (contains u ''character'')"
      by (simp add: py_in_def)
    have ep: "endpoint_of urls = (if contains u ''character'' then ''character'' else ''episode'')"
      by (simp add: endpoint_of_def u)
    show ?thesis
      using False
      by (simp add: body first isc and_then_def fetch_multiple_as_request bulk_url_def ep
          ids_to_fetch_def)
  qed
qed

lemma small_batch:
  "batch_direct small_upstream
     (JArr [JStr ''https://rickandmortyapi.com/api/character/1'',
            JStr ''https://rickandmortyapi.com/api/character/2'']) 10
   = Inr two_characters"
proof -
  have x: "extract_id_from_url ''https://rickandmortyapi.com/api/character/1'' = ''1''"
    using extract_id_trailing_digits [of "''1''" "''https://rickandmortyapi.com/api/character''"]
    by (simp add: is_digit_def)
  have "fetch_multiple small_upstream
          [''https://rickandmortyapi.com/api/character/1'',
           ''https://rickandmortyapi.com/api/character/2''] 10
        = \<lparr>entities = two_characters, notices = [],
           sent = [(''https://rickandmortyapi.com/api/character/1,2'', None)]\<rparr>"
    by (simp add: fetch_multiple_def bulk_url_def endpoint_of_def ids_to_fetch_def ids_of_def
        slice_to_def x extract_id_examples BASE_def small_upstream_def ok_response_def)
  then show ?thesis
    using fetch_multiple_json_strings
            [of small_upstream "[''https://rickandmortyapi.com/api/character/1'',
                                 ''https://rickandmortyapi.com/api/character/2'']" 10]
    by (simp add: batch_direct_def and_then_def)
qed

subsection \<open>The list views\<close>

lemma pager_no_click_keeps:
  "(\<exists>e. pager_controls info key NoClick s = Inl e) \<or> pager_controls info key NoClick s = Inr (s, False)"
  by (simp add: pager_controls_def st_button_def Let_def split: sum.split option.split)

lemma render_character_list_keeps:
  assumes "get ''character'' (Some (char_params s)) = Inr (JObj kvs)" "map_of kvs ''error'' = None"
  shows "(\<exists>e. render_character_list get NoClick s = Inl e)
       \<or> render_character_list get NoClick s = Inr (s, False)"
  using assms pager_no_click_keeps [of _ Char_page s]
  by (auto simp: render_character_list_def has_error_def split: sum.split)

lemma render_episodes_keeps:
  assumes "ep_request w s = Inr (s1, ps)" "get ''episode'' (Some ps) = Inr (JObj kvs)"
    and "map_of kvs ''error'' = None"
  shows "(\<exists>e. render_episodes get fetch w NoClick s = Inl e)
       \<or> render_episodes get fetch w NoClick s = Inr (s1, False)"
  using assms pager_no_click_keeps [of _ Ep_page s1]
  by (auto simp: render_episodes_def has_error_def split: sum.split)

lemma render_locations_keeps:
  assumes "loc_request w s = Inr (s1, ps)" "get ''location'' (Some ps) = Inr (JObj kvs)"
    and "map_of kvs ''error'' = None"
  shows "(\<exists>e. render_locations get fetch w NoClick s = Inl e)
       \<or> render_locations get fetch w NoClick s = Inr (s1, False)"
  using assms pager_no_click_keeps [of _ Loc_page s1]
  by (auto simp: render_locations_def has_error_def split: sum.split)

lemma render_character_list_success:
  assumes "get ''character'' (Some (char_params s)) = Inr (JObj kvs)"
    and "map_of kvs ''error'' = None" "map_of kvs ''info'' = Some (JObj ikvs)"
    and "map_of ikvs ''pages'' = Some (JNum T)"
    and "map_of kvs ''results'' = Some res" "character_cards res = Inr ()"
  shows "render_character_list get NoClick s = Inr (s, False)"
  using assms
  by (simp add: render_character_list_def has_error_def dict_get_def pager_no_click)

lemma render_character_list_error:
  assumes "get ''character'' (Some (char_params s)) = Inr (JObj kvs)"
    and "map_of kvs ''error'' \<noteq> None" "char_page s \<noteq> 1"
  shows "render_character_list get clk s = Inr (s\<lparr>char_page := 1\<rparr>, True)"
  using assms
  by (simp add: render_character_list_def has_error_def)

lemma render_episodes_success:
  assumes "ep_request w s = Inr (s1, ps)" "get ''episode'' (Some ps) = Inr (JObj kvs)"
    and "map_of kvs ''error'' = None" "map_of kvs ''info'' = Some (JObj ikvs)"
    and "map_of ikvs ''pages'' = Some (JNum T)"
    and "map_of kvs ''results'' = Some res" "episode_rows fetch res = Inr ()"
  shows "render_episodes get fetch w NoClick s = Inr (s1, False)"
  using assms
  by (simp add: render_episodes_def has_error_def dict_get_def pager_no_click)

lemma render_locations_success:
  assumes "loc_request w s = Inr (s1, ps)" "get ''location'' (Some ps) = Inr (JObj kvs)"
    and "map_of kvs ''error'' = None" "map_of kvs ''info'' = Some (JObj ikvs)"
    and "map_of ikvs ''pages'' = Some (JNum T)"
    and "map_of kvs ''results'' = Some res" "location_rows fetch res = Inr ()"
  shows "render_locations get fetch w NoClick s = Inr (s1, False)"
  using assms
  by (simp add: render_locations_def has_error_def dict_get_def pager_no_click)

lemma five_alive_cards: "character_cards five_alive_results = Inr ()"
  by (simp add: character_cards_def five_alive_results_def and_then_def
      render_character_card_def dict_get_def status_class_def get_status_color_def
      or_empty_lower_def)

lemma five_alive_truthy: "truthy five_alive_results"
  by (simp add: five_alive_results_def)

lemma pilot_rows: "episode_rows (batch_direct small_upstream) (JArr [pilot_episode]) = Inr ()"
  by (simp add: episode_rows_def episode_row_def pilot_episode_def and_then_def py_item_def
      dict_get_def small_batch two_characters_def name_chips_def)

lemma earth_rows: "location_rows (batch_direct small_upstream) (JArr [earth_location]) = Inr ()"
  by (simp add: location_rows_def location_row_def earth_location_def and_then_def py_item_def
      dict_get_def small_batch two_characters_def name_chips_def)

text \<open>
  C1, as stated, fails: with the status filter \<open>alive\<close> and the character view on page 2,
  the successful response that reports one page of five results leaves the page at 2,
  and no rerun is asked for.
\<close>

theorem narrowed_result_keeps_page_2:
  "char_params alive_page_2_state = alive_page_2
   \<and> direct (always five_alive_response) ''character'' (Some alive_page_2) = Inr five_alive
   \<and> render_character_list (direct (always five_alive_response)) NoClick alive_page_2_state
       = Inr (alive_page_2_state, False)
   \<and> char_page alive_page_2_state = 2"
proof -
  have p: "char_params alive_page_2_state = alive_page_2"
    by (simp add: char_params_def alive_page_2_state_def alive_page_2_def start_state_def)
  have g: "\<And>e ps. direct (always five_alive_response) e ps = Inr five_alive"
    by (simp add: direct_def api_get_def always_def five_alive_response_def)
  have r: "render_character_list (direct (always five_alive_response)) NoClick alive_page_2_state
             = Inr (alive_page_2_state, False)"
    by (simp add: render_character_list_def g five_alive_def five_alive_fields_def
        five_alive_info_def has_error_def dict_get_def five_alive_cards pager_controls_def
        st_button_def five_alive_truthy)
  have c: "char_page alive_page_2_state = 2"
    by (simp add: alive_page_2_state_def start_state_def)
  from p g r c show ?thesis by simp
qed

text \<open>
  C1, amended. No list view compares the reported total page count with the current
  page. For every list response without an error key, whatever total page count it
  reports, a run that no pager button started never resets the page and never asks for a
  rerun: either an exception raised while the results are drawn ends the run, or the view
  returns the session state as the request was built from it (the character page as it
  was; the episode and location page as the page field holds it) with no rerun. It is the
  latter whenever the results can be drawn and the reported page count is a number, and
  the former whenever drawing the results raises.
  The character view resets its page to 1 and asks for a rerun when the response is an
  error value and the page is not 1.
\<close>

theorem list_views_keep_page_on_success:
  assumes "map_of kvs ''error'' = None"
  shows "(get ''character'' (Some (char_params s)) = Inr (JObj kvs) \<longrightarrow>
            (\<exists>e. render_character_list get NoClick s = Inl e)
            \<or> render_character_list get NoClick s = Inr (s, False))
       \<and> (ep_request ew s = Inr (s1, ps1) \<and> get ''episode'' (Some ps1) = Inr (JObj kvs) \<longrightarrow>
            (\<exists>e. render_episodes get fetch ew NoClick s = Inl e)
            \<or> render_episodes get fetch ew NoClick s = Inr (s1, False))
       \<and> (loc_request lw s = Inr (s2, ps2) \<and> get ''location'' (Some ps2) = Inr (JObj kvs) \<longrightarrow>
            (\<exists>e. render_locations get fetch lw NoClick s = Inl e)
            \<or> render_locations get fetch lw NoClick s = Inr (s2, False))
       \<and> (map_of kvs ''info'' = Some (JObj ikvs) \<and> map_of ikvs ''pages'' = Some (JNum T)
            \<and> map_of kvs ''results'' = Some res \<longrightarrow>
            (get ''character'' (Some (char_params s)) = Inr (JObj kvs)
               \<and> character_cards res = Inr () \<longrightarrow>
               render_character_list get NoClick s = Inr (s, False))
            \<and> (ep_request ew s = Inr (s1, ps1) \<and> get ''episode'' (Some ps1) = Inr (JObj kvs)
               \<and> episode_rows fetch res = Inr () \<longrightarrow>
               render_episodes get fetch ew NoClick s = Inr (s1, False))
            \<and> (loc_request lw s = Inr (s2, ps2) \<and> get ''location'' (Some ps2) = Inr (JObj kvs)
               \<and> location_rows fetch res = Inr () \<longrightarrow>
               render_locations get fetch lw NoClick s = Inr (s2, False)))
       \<and> (map_of kvs ''results'' = Some res \<and> truthy res \<longrightarrow>
            (get ''character'' (Some (char_params s)) = Inr (JObj kvs)
               \<and> character_cards res = Inl err \<longrightarrow>
               render_character_list get clk s = Inl err)
            \<and> (ep_request ew s = Inr (s1, ps1) \<and> get ''episode'' (Some ps1) = Inr (JObj kvs)
               \<and> episode_rows fetch res = Inl err \<longrightarrow>
               render_episodes get fetch ew clk s = Inl err)
            \<and> (loc_request lw s = Inr (s2, ps2) \<and> get ''location'' (Some ps2) = Inr (JObj kvs)
               \<and> location_rows fetch res = Inl err \<longrightarrow>
               render_locations get fetch lw clk s = Inl err))
       \<and> (get ''character'' (Some (char_params s)) = Inr (JObj ekvs) \<and> map_of ekvs ''error'' \<noteq> None
            \<and> char_page s \<noteq> 1 \<longrightarrow>
            render_character_list get clk s = Inr (s\<lparr>char_page := 1\<rparr>, True))"
proof (intro conjI impI)
  assume h: "get ''character'' (Some (char_params s)) = Inr (JObj kvs)"
  show "(\<exists>e. render_character_list get NoClick s = Inl e)
            \<or> render_character_list get NoClick s = Inr (s, False)"
    by (rule render_character_list_keeps [where kvs = kvs]) (use h assms in simp_all)
next
  assume h: "ep_request ew s = Inr (s1, ps1) \<and> get ''episode'' (Some ps1) = Inr (JObj kvs)"
  show "(\<exists>e. render_episodes get fetch ew NoClick s = Inl e)
            \<or> render_episodes get fetch ew NoClick s = Inr (s1, False)"
    by (rule render_episodes_keeps [where kvs = kvs and ps = ps1]) (use h assms in simp_all)
next
  assume h: "loc_request lw s = Inr (s2, ps2) \<and> get ''location'' (Some ps2) = Inr (JObj kvs)"
  show "(\<exists>e. render_locations get fetch lw NoClick s = Inl e)
            \<or> render_locations get fetch lw NoClick s = Inr (s2, False)"
    by (rule render_locations_keeps [where kvs = kvs and ps = ps2]) (use h assms in simp_all)
next
  assume i: "map_of kvs ''info'' = Some (JObj ikvs) \<and> map_of ikvs ''pages'' = Some (JNum T)
            \<and> map_of kvs ''results'' = Some res"
    and c: "get ''character'' (Some (char_params s)) = Inr (JObj kvs) \<and> character_cards res = Inr ()"
  show "render_character_list get NoClick s = Inr (s, False)"
    by (rule render_character_list_success [where kvs = kvs and ikvs = ikvs and T = T and res = res])
      (use i c assms in simp_all)
next
  assume i: "map_of kvs ''info'' = Some (JObj ikvs) \<and> map_of ikvs ''pages'' = Some (JNum T)
            \<and> map_of kvs ''results'' = Some res"
    and c: "ep_request ew s = Inr (s1, ps1) \<and> get ''episode'' (Some ps1) = Inr (JObj kvs)
               \<and> episode_rows fetch res = Inr ()"
  show "render_episodes get fetch ew NoClick s = Inr (s1, False)"
    by (rule render_episodes_success
          [where kvs = kvs and ikvs = ikvs and T = T and res = res and ps = ps1])
      (use i c assms in simp_all)
next
  assume i: "map_of kvs ''info'' = Some (JObj ikvs) \<and> map_of ikvs ''pages'' = Some (JNum T)
            \<and> map_of kvs ''results'' = Some res"
    and c: "loc_request lw s = Inr (s2, ps2) \<and> get ''location'' (Some ps2) = Inr (JObj kvs)
               \<and> location_rows fetch res = Inr ()"
  show "render_locations get fetch lw NoClick s = Inr (s2, False)"
    by (rule render_locations_success
          [where kvs = kvs and ikvs = ikvs and T = T and res = res and ps = ps2])
      (use i c assms in simp_all)
next
  assume i: "map_of kvs ''results'' = Some res \<and> truthy res"
    and c: "get ''character'' (Some (char_params s)) = Inr (JObj kvs) \<and> character_cards res = Inl err"
  show "render_character_list get clk s = Inl err"
    using i c assms by (simp add: render_character_list_def has_error_def dict_get_def)
next
  assume i: "map_of kvs ''results'' = Some res \<and> truthy res"
    and c: "ep_request ew s = Inr (s1, ps1) \<and> get ''episode'' (Some ps1) = Inr (JObj kvs)
               \<and> episode_rows fetch res = Inl err"
  show "render_episodes get fetch ew clk s = Inl err"
    using i c assms by (simp add: render_episodes_def has_error_def dict_get_def)
next
  assume i: "map_of kvs ''results'' = Some res \<and> truthy res"
    and c: "loc_request lw s = Inr (s2, ps2) \<and> get ''location'' (Some ps2) = Inr (JObj kvs)
               \<and> location_rows fetch res = Inl err"
  show "render_locations get fetch lw clk s = Inl err"
    using i c assms by (simp add: render_locations_def has_error_def dict_get_def)
next
  assume h: "get ''character'' (Some (char_params s)) = Inr (JObj ekvs) \<and> map_of ekvs ''error'' \<noteq> None
            \<and> char_page s \<noteq> 1"
  show "render_character_list get clk s = Inr (s\<lparr>char_page := 1\<rparr>, True)"
    by (rule render_character_list_error [where kvs = ekvs]) (use h in simp_all)
qed

theorem list_views_keep_page_on_success_witness:
  "map_of five_alive_fields ''error'' = None
   \<and> map_of five_alive_fields ''info'' = Some (JObj five_alive_info)
   \<and> map_of five_alive_info ''pages'' = Some (JNum 1)
   \<and> map_of five_alive_fields ''results'' = Some five_alive_results
   \<and> direct (always five_alive_response) ''character'' (Some (char_params alive_page_2_state))
       = Inr (JObj five_alive_fields)
   \<and> character_cards five_alive_results = Inr ()
   \<and> render_character_list (direct (always five_alive_response)) NoClick alive_page_2_state
       = Inr (alive_page_2_state, False)
   \<and> map_of episode_page_fields ''error'' = None
   \<and> map_of episode_page_fields ''info'' = Some (JObj one_page_info)
   \<and> map_of one_page_info ''pages'' = Some (JNum 1)
   \<and> map_of episode_page_fields ''results'' = Some (JArr [pilot_episode])
   \<and> ep_request \<lparr>ep_name = [], ep_code = [], ep_page_input = Some 2\<rparr> start_state
       = Inr (start_state\<lparr>ep_page := 2\<rparr>, [(''page'', JNum 2)])
   \<and> direct small_upstream ''episode'' (Some [(''page'', JNum 2)]) = Inr (JObj episode_page_fields)
   \<and> episode_rows (batch_direct small_upstream) (JArr [pilot_episode]) = Inr ()
   \<and> render_episodes (direct small_upstream) (batch_direct small_upstream)
        \<lparr>ep_name = [], ep_code = [], ep_page_input = Some 2\<rparr> NoClick start_state
       = Inr (start_state\<lparr>ep_page := 2\<rparr>, False)
   \<and> map_of location_page_fields ''error'' = None
   \<and> map_of location_page_fields ''info'' = Some (JObj one_page_info)
   \<and> map_of location_page_fields ''results'' = Some (JArr [earth_location])
   \<and> loc_request \<lparr>loc_name = [], loc_type = [], loc_page_input = Some 2\<rparr> start_state
       = Inr (start_state\<lparr>loc_page := 2\<rparr>, [(''page'', JNum 2)])
   \<and> direct small_upstream ''location'' (Some [(''page'', JNum 2)]) = Inr (JObj location_page_fields)
   \<and> location_rows (batch_direct small_upstream) (JArr [earth_location]) = Inr ()
   \<and> render_locations (direct small_upstream) (batch_direct small_upstream)
        \<lparr>loc_name = [], loc_type = [], loc_page_input = Some 2\<rparr> NoClick start_state
       = Inr (start_state\<lparr>loc_page := 2\<rparr>, False)
   \<and> direct (always not_found_response) ''character'' (Some (char_params alive_page_2_state))
       = Inr (JObj not_found_error_fields)
   \<and> map_of not_found_error_fields ''error'' \<noteq> None
   \<and> char_page alive_page_2_state \<noteq> 1
   \<and> render_character_list (direct (always not_found_response)) NoClick alive_page_2_state
       = Inr (alive_page_2_state\<lparr>char_page := 1\<rparr>, True)
   \<and> truthy five_alive_results
   \<and> direct (always five_alive_response) ''episode'' (Some [(''page'', JNum 2)])
       = Inr (JObj five_alive_fields)
   \<and> episode_rows (batch_direct small_upstream) five_alive_results = Inl KeyError
   \<and> render_episodes (direct (always five_alive_response)) (batch_direct small_upstream)
        \<lparr>ep_name = [], ep_code = [], ep_page_input = Some 2\<rparr> NoClick start_state
       = Inl KeyError
   \<and> direct (always five_alive_response) ''location'' (Some [(''page'', JNum 2)])
       = Inr (JObj five_alive_fields)
   \<and> location_rows (batch_direct small_upstream) five_alive_results = Inl KeyError
   \<and> render_locations (direct (always five_alive_response)) (batch_direct small_upstream)
        \<lparr>loc_name = [], loc_type = [], loc_page_input = Some 2\<rparr> NoClick start_state
       = Inl KeyError
   \<and> character_cards (JArr [pilot_episode]) = Inr ()
   \<and> character_cards (JArr [JStr ''Rick'']) = Inl AttributeError
   \<and> character_cards (JNum 5) = Inl TypeError
   \<and> render_character_card (JObj [(''id'', JNum 1), (''status'', JNum 1)]) = Inl AttributeError
   \<and> render_character_card (JObj [(''id'', JNum 1), (''origin'', JStr ''Earth'')])
       = Inl AttributeError
   \<and> render_character_card (JObj [(''id'', JNum 1), (''status'', JNull), (''origin'', JNull)])
       = Inr ()
   \<and> episode_row (batch_direct small_upstream) (JStr ''Pilot'') = Inl TypeError
   \<and> episode_row (batch_direct small_upstream)
        (JObj [(''name'', JStr ''Pilot''), (''episode'', JStr ''S01E01''),
               (''air_date'', JStr ''December 2, 2013'')]) = Inl KeyError
   \<and> episode_row (batch_direct small_upstream)
        (JObj [(''id'', JNum 1), (''name'', JStr ''Pilot''), (''episode'', JStr ''S01E01''),
               (''air_date'', JStr ''December 2, 2013''), (''characters'', JNum 7)])
       = Inl TypeError
   \<and> location_row (batch_direct small_upstream)
        (JObj [(''id'', JNum 1), (''name'', JStr ''Earth''), (''type'', JStr ''Planet'')])
       = Inl KeyError
   \<and> name_chips [JObj [(''id'', JNum 1)]] = Inl KeyError"
proof -
  let ?ew = "\<lparr>ep_name = [], ep_code = [], ep_page_input = Some 2\<rparr>"
  let ?lw = "\<lparr>loc_name = [], loc_type = [], loc_page_input = Some 2\<rparr>"
  have k1: "map_of five_alive_fields ''error'' = None"
    and k2: "map_of five_alive_fields ''info'' = Some (JObj five_alive_info)"
    and k4: "map_of five_alive_fields ''results'' = Some five_alive_results"
    by (simp_all add: five_alive_fields_def)
  have k3: "map_of five_alive_info ''pages'' = Some (JNum 1)"
    by (simp add: five_alive_info_def)
  have e1: "map_of episode_page_fields ''error'' = None"
    and e2: "map_of episode_page_fields ''info'' = Some (JObj one_page_info)"
    and e4: "map_of episode_page_fields ''results'' = Some (JArr [pilot_episode])"
    by (simp_all add: episode_page_fields_def)
  have e3: "map_of one_page_info ''pages'' = Some (JNum 1)"
    by (simp add: one_page_info_def)
  have l1: "map_of location_page_fields ''error'' = None"
    and l2: "map_of location_page_fields ''info'' = Some (JObj one_page_info)"
    and l4: "map_of location_page_fields ''results'' = Some (JArr [earth_location])"
    by (simp_all add: location_page_fields_def)
  have g: "\<And>e ps. direct (always five_alive_response) e ps = Inr (JObj five_alive_fields)"
    by (simp add: direct_def api_get_def always_def five_alive_response_def five_alive_def)
  have n: "\<And>e ps. direct (always not_found_response) e ps = Inr (JObj not_found_error_fields)"
    by (simp add: direct_def api_get_def always_def not_found_response_def
        not_found_error_fields_def str_int_404)
  have ge: "\<And>ps. direct small_upstream ''episode'' ps = Inr (JObj episode_page_fields)"
    by (simp add: direct_def api_get_def small_upstream_def ok_response_def BASE_def)
  have gl: "\<And>ps. direct small_upstream ''location'' ps = Inr (JObj location_page_fields)"
    by (simp add: direct_def api_get_def small_upstream_def ok_response_def BASE_def)
  have er: "ep_request ?ew start_state = Inr (start_state\<lparr>ep_page := 2\<rparr>, [(''page'', JNum 2)])"
    by (simp add: ep_request_def number_input_def ep_params_def start_state_def)
  have lr: "loc_request ?lw start_state = Inr (start_state\<lparr>loc_page := 2\<rparr>, [(''page'', JNum 2)])"
    by (simp add: loc_request_def number_input_def loc_params_def start_state_def)
  have x1: "map_of not_found_error_fields ''error'' \<noteq> None"
    by (simp add: not_found_error_fields_def)
  have p2: "char_page alive_page_2_state \<noteq> 1"
    by (simp add: alive_page_2_state_def start_state_def)
  note tc = list_views_keep_page_on_success
              [OF k1, where get = "direct (always five_alive_response)"
                 and s = alive_page_2_state and ikvs = five_alive_info and T = 1
                 and res = five_alive_results]
  note te = list_views_keep_page_on_success
              [OF e1, where get = "direct small_upstream" and fetch = "batch_direct small_upstream"
                 and s = start_state and ew = ?ew
                 and ?s1.0 = "start_state\<lparr>ep_page := 2\<rparr>" and ?ps1.0 = "[(''page'', JNum 2)]"
                 and ikvs = one_page_info and T = 1 and res = "JArr [pilot_episode]"]
  note tl = list_views_keep_page_on_success
              [OF l1, where get = "direct small_upstream" and fetch = "batch_direct small_upstream"
                 and s = start_state and lw = ?lw
                 and ?s2.0 = "start_state\<lparr>loc_page := 2\<rparr>" and ?ps2.0 = "[(''page'', JNum 2)]"
                 and ikvs = one_page_info and T = 1 and res = "JArr [earth_location]"]
  note tx = list_views_keep_page_on_success
              [OF k1, where get = "direct (always not_found_response)"
                 and s = alive_page_2_state and ekvs = not_found_error_fields and clk = NoClick]
  have a: "render_character_list (direct (always five_alive_response)) NoClick alive_page_2_state
             = Inr (alive_page_2_state, False)"
    using conjunct1 [OF conjunct2 [OF conjunct2 [OF conjunct2 [OF tc]]]] k2 k3 k4 g
      five_alive_cards by blast
  have b: "render_episodes (direct small_upstream) (batch_direct small_upstream) ?ew NoClick
             start_state = Inr (start_state\<lparr>ep_page := 2\<rparr>, False)"
    using conjunct1 [OF conjunct2 [OF conjunct2 [OF conjunct2 [OF te]]]] e2 e3 e4 ge er
      pilot_rows by blast
  have c: "render_locations (direct small_upstream) (batch_direct small_upstream) ?lw NoClick
             start_state = Inr (start_state\<lparr>loc_page := 2\<rparr>, False)"
    using conjunct1 [OF conjunct2 [OF conjunct2 [OF conjunct2 [OF tl]]]] l2 e3 l4 gl lr
      earth_rows by blast
  have d: "render_character_list (direct (always not_found_response)) NoClick alive_page_2_state
             = Inr (alive_page_2_state\<lparr>char_page := 1\<rparr>, True)"
    using conjunct2 [OF conjunct2 [OF conjunct2 [OF conjunct2 [OF conjunct2 [OF tx]]]]] n x1 p2
    by blast
  have ek: "episode_rows (batch_direct small_upstream) five_alive_results = Inl KeyError"
    by (simp add: episode_rows_def episode_row_def five_alive_results_def and_then_def
        py_item_def)
  have lk: "location_rows (batch_direct small_upstream) five_alive_results = Inl KeyError"
    by (simp add: location_rows_def location_row_def five_alive_results_def and_then_def
        py_item_def)
  note tf = list_views_keep_page_on_success
              [OF k1, where get = "direct (always five_alive_response)"
                 and fetch = "batch_direct small_upstream" and s = start_state
                 and ew = ?ew and ?s1.0 = "start_state\<lparr>ep_page := 2\<rparr>"
                 and ?ps1.0 = "[(''page'', JNum 2)]"
                 and lw = ?lw and ?s2.0 = "start_state\<lparr>loc_page := 2\<rparr>"
                 and ?ps2.0 = "[(''page'', JNum 2)]"
                 and res = five_alive_results and err = KeyError and clk = NoClick]
  note raising = conjunct1 [OF conjunct2 [OF conjunct2 [OF conjunct2 [OF conjunct2 [OF tf]]]]]
  have f1: "render_episodes (direct (always five_alive_response)) (batch_direct small_upstream)
              ?ew NoClick start_state = Inl KeyError"
    using raising k4 five_alive_truthy g er ek by blast
  have f2: "render_locations (direct (always five_alive_response)) (batch_direct small_upstream)
              ?lw NoClick start_state = Inl KeyError"
    using raising k4 five_alive_truthy g lr lk by blast
  have c1: "character_cards (JArr [pilot_episode]) = Inr ()"
    by (simp add: character_cards_def pilot_episode_def and_then_def render_character_card_def
        dict_get_def status_class_def get_status_color_def or_empty_lower_def)
  have c2: "character_cards (JArr [JStr ''Rick'']) = Inl AttributeError"
    by (simp add: character_cards_def and_then_def render_character_card_def dict_get_def)
  have c3: "character_cards (JNum 5) = Inl TypeError"
    by (simp add: character_cards_def and_then_def)
  have c4: "render_character_card (JObj [(''id'', JNum 1), (''status'', JNum 1)])
              = Inl AttributeError"
    by (simp add: and_then_def render_character_card_def dict_get_def status_class_def
        or_empty_lower_def)
  have c5: "render_character_card (JObj [(''id'', JNum 1), (''origin'', JStr ''Earth'')])
              = Inl AttributeError"
    by (simp add: and_then_def render_character_card_def dict_get_def status_class_def
        get_status_color_def or_empty_lower_def)
  have c6: "render_character_card (JObj [(''id'', JNum 1), (''status'', JNull), (''origin'', JNull)])
              = Inr ()"
    by (simp add: and_then_def render_character_card_def dict_get_def status_class_def
        get_status_color_def or_empty_lower_def)
  have r1: "episode_row (batch_direct small_upstream) (JStr ''Pilot'') = Inl TypeError"
    by (simp add: episode_row_def and_then_def py_item_def)
  have r2: "episode_row (batch_direct small_upstream)
              (JObj [(''name'', JStr ''Pilot''), (''episode'', JStr ''S01E01''),
                     (''air_date'', JStr ''December 2, 2013'')]) = Inl KeyError"
    by (simp add: episode_row_def and_then_def py_item_def)
  have r3: "episode_row (batch_direct small_upstream)
              (JObj [(''id'', JNum 1), (''name'', JStr ''Pilot''), (''episode'', JStr ''S01E01''),
                     (''air_date'', JStr ''December 2, 2013''), (''characters'', JNum 7)])
            = Inl TypeError"
    by (simp add: episode_row_def and_then_def py_item_def dict_get_def batch_direct_def
        fetch_multiple_json_def)
  have r4: "location_row (batch_direct small_upstream)
              (JObj [(''id'', JNum 1), (''name'', JStr ''Earth''), (''type'', JStr ''Planet'')])
            = Inl KeyError"
    by (simp add: location_row_def and_then_def py_item_def)
  have r5: "name_chips [JObj [(''id'', JNum 1)]] = Inl KeyError"
    by (simp add: name_chips_def and_then_def py_item_def)
  show ?thesis
    using k1 k2 k3 k4 e1 e2 e3 e4 l1 l2 l4 g n ge gl er lr x1 p2 a b c d
      five_alive_cards pilot_rows earth_rows five_alive_truthy ek lk f1 f2 c1 c2 c3 c4 c5 c6
      r1 r2 r3 r4 r5
    by blast
qed

text \<open>
  The character view, for comparison: each of its four filter widgets is created
  with \<open>on_change=reset_char_page\<close>, so the request built after a change of a filter holds
  page 1 and the new value.
\<close>

lemma character_filter_change_resets_page:
  assumes "v \<noteq> filter_value f s"
  shows "char_page (filter_changed f v s) = 1
       \<and> filter_value f (filter_changed f v s) = v
       \<and> map_of (char_params (filter_changed f v s)) ''page'' = Some (JNum 1)"
  using assms by (cases f) (simp_all add: filter_changed_def reset_char_page_def char_params_def)

text \<open>
  C5 names a property that the episode and location views do not have. Their filters
  carry no callback, and the page is whatever the page field holds: with the page field
  at 3, changing the name filter from empty to \<open>Pilot\<close> (or to \<open>Earth\<close>) builds the next
  request with the old page 3 and the new filter value.
\<close>

theorem episode_filter_change_keeps_page:
  "ep_request \<lparr>ep_name = [], ep_code = [], ep_page_input = Some 3\<rparr> (start_state\<lparr>ep_page := 3\<rparr>)
     = Inr (start_state\<lparr>ep_page := 3\<rparr>, [(''page'', JNum 3)])
   \<and> ep_request \<lparr>ep_name = ''Pilot'', ep_code = [], ep_page_input = Some 3\<rparr>
        (start_state\<lparr>ep_page := 3\<rparr>)
     = Inr (start_state\<lparr>ep_page := 3\<rparr>, [(''page'', JNum 3), (''name'', JStr ''Pilot'')])
   \<and> loc_request \<lparr>loc_name = [], loc_type = [], loc_page_input = Some 3\<rparr>
        (start_state\<lparr>loc_page := 3\<rparr>)
     = Inr (start_state\<lparr>loc_page := 3\<rparr>, [(''page'', JNum 3)])
   \<and> loc_request \<lparr>loc_name = ''Earth'', loc_type = [], loc_page_input = Some 3\<rparr>
        (start_state\<lparr>loc_page := 3\<rparr>)
     = Inr (start_state\<lparr>loc_page := 3\<rparr>, [(''page'', JNum 3), (''name'', JStr ''Earth'')])"
  by (simp add: ep_request_def loc_request_def number_input_def ep_params_def loc_params_def
      start_state_def)

end
